theory Spec2Isabelle
  imports Complex_Main
begin

section \<open>JavaScript values used by the notification timing engine\<close>

text \<open>
  The engine computes with JavaScript numbers. Finite numbers are modelled as exact
  rationals (rounding of IEEE doubles is not modelled); the one non-finite value the
  engine can produce, \<open>NaN\<close>, comes out of \<open>parseTime\<close> and is kept as a value of its
  own, with JavaScript's rule that every comparison with \<open>NaN\<close> is false.
\<close>

datatype jsnum = Num rat | NaN

fun js_le :: "jsnum \<Rightarrow> jsnum \<Rightarrow> bool" where
  "js_le (Num a) (Num b) = (a \<le> b)"
| "js_le _ _ = False"

fun js_gt :: "jsnum \<Rightarrow> jsnum \<Rightarrow> bool" where
  "js_gt (Num a) (Num b) = (a > b)"
| "js_gt _ _ = False"

definition js_ge :: "jsnum \<Rightarrow> jsnum \<Rightarrow> bool" where
  "js_ge a b = js_le b a"

fun js_add :: "jsnum \<Rightarrow> jsnum \<Rightarrow> jsnum" where
  "js_add (Num a) (Num b) = Num (a + b)"
| "js_add _ _ = NaN"

fun js_mul :: "jsnum \<Rightarrow> jsnum \<Rightarrow> jsnum" where
  "js_mul (Num a) (Num b) = Num (a * b)"
| "js_mul _ _ = NaN"

fun js_div60 :: "jsnum \<Rightarrow> jsnum" where
  "js_div60 (Num a) = Num (a / 60)"
| "js_div60 NaN = NaN"

text \<open>\<open>ToNumber\<close> of a destructured array slot: a missing slot is \<open>undefined\<close>, which is \<open>NaN\<close>.\<close>

fun slot_number :: "jsnum option \<Rightarrow> jsnum" where
  "slot_number None = NaN"
| "slot_number (Some v) = v"

subsection \<open>Decimal strings\<close>

definition digit_of :: "char \<Rightarrow> nat option" where
  "digit_of c = map_of
     [(CHR ''0'', 0), (CHR ''1'', 1), (CHR ''2'', 2), (CHR ''3'', 3), (CHR ''4'', 4),
      (CHR ''5'', 5), (CHR ''6'', 6), (CHR ''7'', 7), (CHR ''8'', 8), (CHR ''9'', 9)] c"

definition is_digit :: "char \<Rightarrow> bool" where
  "is_digit c = (digit_of c \<noteq> None)"

definition dec_value :: "string \<Rightarrow> nat" where
  "dec_value s = foldl (\<lambda>acc c. 10 * acc + the (digit_of c)) 0 s"

text \<open>
  \<open>Number(s)\<close> on a string: the empty string is 0 and a string of decimal digits is its
  decimal value. Every other literal form of JavaScript (sign, fraction, exponent, radix
  prefix, surrounding blanks) is left to the parameter \<open>lit\<close>, about which nothing is
  assumed.
\<close>

definition Number_js :: "(string \<Rightarrow> jsnum) \<Rightarrow> string \<Rightarrow> jsnum" where
  "Number_js lit s =
     (if s = [] then Num 0
      else if list_all is_digit s then Num (of_nat (dec_value s))
      else lit s)"

text \<open>\<open>s.split(':')\<close>: the fields between colons, always at least one field.\<close>

fun split_colon_acc :: "string \<Rightarrow> string \<Rightarrow> string list" where
  "split_colon_acc cur [] = [rev cur]"
| "split_colon_acc cur (c # cs) =
     (if c = CHR '':'' then rev cur # split_colon_acc [] cs
      else split_colon_acc (c # cur) cs)"

definition split_colon :: "string \<Rightarrow> string list" where
  "split_colon s = split_colon_acc [] s"

text \<open>\<open>const [hours, minutes] = timeStr.split(':').map(Number)\<close>.\<close>

definition time_fields :: "(string \<Rightarrow> jsnum) \<Rightarrow> string \<Rightarrow> jsnum \<times> jsnum option" where
  "time_fields lit s =
     (case map (Number_js lit) (split_colon s) of
        [] \<Rightarrow> (NaN, None)
      | [h] \<Rightarrow> (h, None)
      | h # m # _ \<Rightarrow> (h, Some m))"

text \<open>\<open>NotificationService.parseTime\<close>: \<open>hours * 60 + minutes\<close>.\<close>

definition parseTime_minutes :: "(string \<Rightarrow> jsnum) \<Rightarrow> string \<Rightarrow> jsnum" where
  "parseTime_minutes lit s =
     (case time_fields lit s of (hours, minutes) \<Rightarrow>
        js_add (js_mul hours (Num 60)) (slot_number minutes))"

text \<open>\<open>SmartNotificationTiming.parseTime\<close>: \<open>hours + minutes / 60\<close>.\<close>

definition parseTime :: "(string \<Rightarrow> jsnum) \<Rightarrow> string \<Rightarrow> jsnum" where
  "parseTime lit s =
     (case time_fields lit s of (hours, minutes) \<Rightarrow>
        js_add hours (js_div60 (slot_number minutes)))"

text \<open>\<open>SmartNotificationTiming.isHourInRange\<close>.\<close>

definition isHourInRange :: "jsnum \<Rightarrow> jsnum \<Rightarrow> jsnum \<Rightarrow> bool" where
  "isHourInRange hour start end' =
     (if js_le start end' then js_ge hour start \<and> js_le hour end'
      else js_ge hour start \<or> js_le hour end')"

subsection \<open>Dates\<close>

text \<open>
  A valid \<open>Date\<close> is its time value in milliseconds, read on the local wall clock with a
  fixed offset (no daylight-saving change); day 0 is a Thursday, as 1970-01-01 is.
  \<open>new Date()\<close> is the parameter \<open>now\<close> of each operation: one synchronous call reads
  one clock value.
\<close>

type_synonym date = int

definition msPerHour :: int where "msPerHour = 60 * 60 * 1000"
definition msPerDay :: int where "msPerDay = 24 * 60 * 60 * 1000"

definition getHours :: "date \<Rightarrow> nat" where
  "getHours t = nat ((t div msPerHour) mod 24)"

definition getMinutes :: "date \<Rightarrow> nat" where
  "getMinutes t = nat ((t div 60000) mod 60)"

definition getDay :: "date \<Rightarrow> nat" where
  "getDay t = nat ((t div msPerDay + 4) mod 7)"

text \<open>\<open>d.setHours(h, m, 0, 0)\<close> and \<open>d.setDate(d.getDate() + 1)\<close>.\<close>

definition setHours :: "date \<Rightarrow> nat \<Rightarrow> nat \<Rightarrow> date" where
  "setHours t h m = (t - t mod msPerDay) + int h * msPerHour + int m * 60000"

definition nextDay :: "date \<Rightarrow> date" where
  "nextDay t = t + msPerDay"

text \<open>
  A \<open>Date\<close> holds a time value of at most 8.64e15 milliseconds in absolute value; a
  computation that leaves this range gives the Invalid Date, here \<open>None\<close>. The clock
  value \<open>now\<close> is taken to lie far inside the range, so that the dates computed from it
  alone are valid; a date handed in by a caller may lie anywhere in the range.
\<close>

definition maxTimeValue :: int where
  "maxTimeValue = 8640000000000000"

definition timeClip :: "int \<Rightarrow> date option" where
  "timeClip ms = (if \<bar>ms\<bar> \<le> maxTimeValue then Some ms else None)"

text \<open>
  \<open>getDayName\<close>: \<open>days[dayIndex]\<close>. Out of range the array read is \<open>undefined\<close>, which as
  an object key is the string \<open>undefined\<close>; \<open>getDay\<close> never goes out of range.
\<close>

definition getDayName :: "nat \<Rightarrow> string" where
  "getDayName dayIndex =
     (let days = [''sunday'', ''monday'', ''tuesday'', ''wednesday'', ''thursday'',
                  ''friday'', ''saturday'']
      in if dayIndex < length days then days ! dayIndex else ''undefined'')"

section \<open>SmartNotificationTiming: the data\<close>

datatype Urgency = Critical | High | Medium

datatype ContentType = Recall | Development | General

datatype Action = Opened | Dismissed | Acted

record QuietPeriod =
  q_start :: string
  q_end :: string

record NapTime =
  nap_start :: string
  nap_end :: string
  reliability :: rat

record FussyPeriod =
  fussy_start :: string
  fussy_end :: string
  intensity :: rat

record ClockTime =
  clock_time :: string
  consistency :: rat

text \<open>
  \<open>responseRates\<close> and \<open>averageResponseTime\<close> are objects keyed by \<open>hour.toString()\<close>;
  the decimal string of an hour determines the hour, so the key is the hour itself.
  \<open>weeklyPattern\<close> is keyed by the day name.
\<close>

record UserBehaviorPattern =
  appUsageHours :: "nat list"
  responseRates :: "nat \<rightharpoonup> rat"
  averageResponseTime :: "nat \<rightharpoonup> rat"
  quietPeriods :: "QuietPeriod list"
  lastActiveTime :: date
  weeklyPattern :: "string \<rightharpoonup> nat list"

record BabyScheduleData =
  napTimes :: "NapTime list"
  bedtime :: ClockTime
  wakeupTime :: ClockTime
  feedingTimes :: "nat list"
  fussyPeriods :: "FussyPeriod list"

record ContextualFactors =
  dayOfWeek :: nat
  isHoliday :: bool

record SmartNotificationTiming =
  userBehavior :: UserBehaviorPattern
  babySchedule :: BabyScheduleData
  contextualFactors :: ContextualFactors

record OptimalTimingResult =
  recommendedTime :: "date option"
  confidence :: rat
  reasoning :: string
  alternativeTimes :: "date list"
  shouldDelayReason :: "string option"

record DelayCheck =
  shouldDelay :: bool
  reason :: string
  delay_confidence :: rat

text \<open>
  \<open>v || d\<close> on a stored number: the default is taken when the entry is absent and also
  when it is 0, which JavaScript counts as false.
\<close>

definition or_default :: "rat option \<Rightarrow> rat \<Rightarrow> rat" where
  "or_default v d = (case v of None \<Rightarrow> d | Some r \<Rightarrow> if r = 0 then d else r)"

definition responseRate :: "UserBehaviorPattern \<Rightarrow> nat \<Rightarrow> rat" where
  "responseRate ub hour = or_default (responseRates ub hour) (1/2)"

definition avgResponseTime :: "UserBehaviorPattern \<Rightarrow> nat \<Rightarrow> rat" where
  "avgResponseTime ub hour = or_default (averageResponseTime ub hour) 15"

text \<open>\<open>weeklyPattern[dayName] || appUsageHours\<close>: an array, even an empty one, counts as true.\<close>

definition todayPattern :: "UserBehaviorPattern \<Rightarrow> date \<Rightarrow> nat list" where
  "todayPattern ub t =
     (case weeklyPattern ub (getDayName (getDay t)) of
        Some hours \<Rightarrow> hours
      | None \<Rightarrow> appUsageHours ub)"

section \<open>SmartNotificationTiming: the operations\<close>

definition isTimeInQuietPeriod :: "(string \<Rightarrow> jsnum) \<Rightarrow> date \<Rightarrow> QuietPeriod \<Rightarrow> bool" where
  "isTimeInQuietPeriod lit t quietPeriod =
     (let timeHour = Num (of_nat (getHours t) + of_nat (getMinutes t) / 60);
          start = parseTime lit (q_start quietPeriod);
          end' = parseTime lit (q_end quietPeriod)
      in isHourInRange timeHour start end')"

definition napStep :: "(string \<Rightarrow> jsnum) \<Rightarrow> nat \<Rightarrow> rat \<Rightarrow> NapTime \<Rightarrow> rat" where
  "napStep lit hour conflict nap =
     (if isHourInRange (Num (of_nat hour)) (parseTime lit (nap_start nap)) (parseTime lit (nap_end nap))
      then conflict + reliability nap * (8/10) else conflict)"

definition fussyStep :: "(string \<Rightarrow> jsnum) \<Rightarrow> nat \<Rightarrow> rat \<Rightarrow> FussyPeriod \<Rightarrow> rat" where
  "fussyStep lit hour conflict fussy =
     (if isHourInRange (Num (of_nat hour)) (parseTime lit (fussy_start fussy)) (parseTime lit (fussy_end fussy))
      then conflict + intensity fussy * (6/10) else conflict)"

text \<open>\<open>getBabyScheduleConflict\<close>: the two loops run over the accumulator \<open>conflict\<close>.\<close>

definition getBabyScheduleConflict :: "(string \<Rightarrow> jsnum) \<Rightarrow> BabyScheduleData \<Rightarrow> nat \<Rightarrow> rat" where
  "getBabyScheduleConflict lit bs hour =
     (let c1 = foldl (napStep lit hour) 0 (napTimes bs);
          c2 = foldl (fussyStep lit hour) c1 (fussyPeriods bs);
          c3 = (if hour \<in> set (feedingTimes bs) then c2 + 2/10 else c2)
      in min c3 1)"

definition hourScore ::
  "(string \<Rightarrow> jsnum) \<Rightarrow> SmartNotificationTiming \<Rightarrow> Urgency \<Rightarrow> ContentType \<Rightarrow> nat \<Rightarrow> rat" where
  "hourScore lit st urgencyLevel contentType hour =
     (let s0 = responseRate (userBehavior st) hour * 40;
          s1 = s0 + max 0 (20 - avgResponseTime (userBehavior st) hour) * 2;
          s2 = s1 - getBabyScheduleConflict lit (babySchedule st) hour * 20;
          s3 = (if urgencyLevel = High then s2 * (13/10) else s2);
          s4 = (if contentType = Development \<and> (hour < 8 \<or> hour > 20) then s3 * (7/10) else s3);
          s5 = (if dayOfWeek (contextualFactors st) = 0 \<or> dayOfWeek (contextualFactors st) = 6
                then (if hour < 9 then s4 * (8/10) else s4) else s4)
      in s5)"

text \<open>
  \<open>Object.entries(hourScores)\<close> lists the hour keys in ascending order (they are array
  indices), each once; \<open>sort\<close> is stable and orders by descending score.
\<close>

definition sortedHours ::
  "(string \<Rightarrow> jsnum) \<Rightarrow> SmartNotificationTiming \<Rightarrow> Urgency \<Rightarrow> ContentType \<Rightarrow> nat list \<Rightarrow> nat list" where
  "sortedHours lit st urgencyLevel contentType pattern =
     map fst (sort_key (\<lambda>e. - snd e)
       (map (\<lambda>hour. (hour, hourScore lit st urgencyLevel contentType hour)) (sort (remdups pattern))))"

definition calculateOptimalHour ::
  "(string \<Rightarrow> jsnum) \<Rightarrow> SmartNotificationTiming \<Rightarrow> date \<Rightarrow> Urgency \<Rightarrow> ContentType \<Rightarrow> nat" where
  "calculateOptimalHour lit st now urgencyLevel contentType =
     (let currentHour = getHours now;
          pattern = todayPattern (userBehavior st) now;
          nextFewHours = filter (\<lambda>h. h \<ge> currentHour \<and> h \<le> currentHour + 3) pattern
      in if urgencyLevel = High \<and> currentHour \<in> set pattern \<and> nextFewHours \<noteq> []
         then hd nextFewHours
         else (case sortedHours lit st urgencyLevel contentType pattern of
                 [] \<Rightarrow> currentHour
               | best # _ \<Rightarrow> if best = 0 then currentHour else best))"

definition shouldDelayNotification ::
  "(string \<Rightarrow> jsnum) \<Rightarrow> SmartNotificationTiming \<Rightarrow> date \<Rightarrow> date \<Rightarrow> Urgency \<Rightarrow> DelayCheck" where
  "shouldDelayNotification lit st now proposedTime urgencyLevel =
     (let proposedHour = getHours proposedTime;
          sleepConflict = getBabyScheduleConflict lit (babySchedule st) proposedHour;
          rate = responseRate (userBehavior st) proposedHour
      in if urgencyLevel = High \<and> proposedTime - now < 4 * 60 * 60 * 1000
         then \<lparr>shouldDelay = False, reason = [], delay_confidence = 8/10\<rparr>
         else if list_ex (isTimeInQuietPeriod lit proposedTime) (quietPeriods (userBehavior st))
         then \<lparr>shouldDelay = True, reason = ''Proposed time conflicts with quiet hours'',
               delay_confidence = 9/10\<rparr>
         else if sleepConflict > 7/10
         then \<lparr>shouldDelay = True, reason = ''Baby is likely sleeping or in a fussy period'',
               delay_confidence = sleepConflict\<rparr>
         else if rate < 3/10 \<and> urgencyLevel = Medium
         then \<lparr>shouldDelay = True, reason = ''User historically unresponsive at this time'',
               delay_confidence = 1 - rate\<rparr>
         else \<lparr>shouldDelay = False, reason = [], delay_confidence = 8/10\<rparr>)"

text \<open>
  The loop of \<open>findNextOptimalTime\<close>, \<open>for (i = 1; i <= maxDelay; i++)\<close>: \<open>i\<close> is the
  counter and the last argument the number of rounds left. \<open>None\<close>: the loop ended
  without a \<open>return\<close>. A candidate beyond the range of \<open>Date\<close> is an Invalid Date: its
  hour is \<open>NaN\<close>, it lies in no quiet period (every comparison with \<open>NaN\<close> is false) and
  its rate is the default 0.5 (the tables are keyed by hours), which is not above 0.5, so
  the loop goes on.
\<close>

fun probeHours :: "(string \<Rightarrow> jsnum) \<Rightarrow> UserBehaviorPattern \<Rightarrow> date \<Rightarrow> nat \<Rightarrow> nat \<Rightarrow> date option" where
  "probeHours lit ub originalTime i 0 = None"
| "probeHours lit ub originalTime i (Suc left) =
     (case timeClip (originalTime + int i * 60 * 60 * 1000) of
        None \<Rightarrow> probeHours lit ub originalTime (Suc i) left
      | Some candidate \<Rightarrow>
          (let candidateHour = getHours candidate
           in if list_ex (isTimeInQuietPeriod lit candidate) (quietPeriods ub)
              then probeHours lit ub originalTime (Suc i) left
              else if responseRate ub candidateHour > 1/2 then Some candidate
              else probeHours lit ub originalTime (Suc i) left))"

text \<open>
  \<open>todayPattern.find(hour => hour > h) || todayPattern[0]\<close>; \<open>None\<close> is \<open>undefined\<close>,
  the value for an empty pattern.
\<close>

definition nextActiveHour :: "nat list \<Rightarrow> nat \<Rightarrow> nat option" where
  "nextActiveHour pattern h =
     (case List.find (\<lambda>hour. hour > h) pattern of
        Some hour \<Rightarrow> if hour = 0 then (case pattern of [] \<Rightarrow> None | x # _ \<Rightarrow> Some x) else Some hour
      | None \<Rightarrow> (case pattern of [] \<Rightarrow> None | x # _ \<Rightarrow> Some x))"

text \<open>
  The fallback of \<open>findNextOptimalTime\<close>. \<open>setHours(undefined, 0, 0, 0)\<close> makes the date
  an Invalid Date, and so does a \<open>setHours\<close> or \<open>setDate\<close> that leaves the range of
  \<open>Date\<close>; for an Invalid Date the comparison is false and it is returned as it is:
  \<open>None\<close>.
\<close>

definition fallbackTime :: "UserBehaviorPattern \<Rightarrow> date \<Rightarrow> date \<Rightarrow> date option" where
  "fallbackTime ub now originalTime =
     (case nextActiveHour (todayPattern ub originalTime) (getHours originalTime) of
        None \<Rightarrow> None
      | Some hour \<Rightarrow>
          (case timeClip (setHours originalTime hour 0) of
             None \<Rightarrow> None
           | Some fallback \<Rightarrow>
               if fallback < now + 60 * 60 * 1000 then timeClip (nextDay fallback)
               else Some fallback))"

definition maxDelay :: "Urgency \<Rightarrow> nat" where
  "maxDelay urgencyLevel = (if urgencyLevel = High then 6 else 24)"

definition findNextOptimalTime ::
  "(string \<Rightarrow> jsnum) \<Rightarrow> UserBehaviorPattern \<Rightarrow> date \<Rightarrow> date \<Rightarrow> Urgency \<Rightarrow> date option" where
  "findNextOptimalTime lit ub now originalTime urgencyLevel =
     (case probeHours lit ub originalTime 1 (maxDelay urgencyLevel) of
        Some candidate \<Rightarrow> Some candidate
      | None \<Rightarrow> fallbackTime ub now originalTime)"

definition createOptimalTime :: "date \<Rightarrow> nat \<Rightarrow> date" where
  "createOptimalTime now hour =
     (let time = setHours now hour 0
      in if time \<le> now then nextDay time else time)"

definition calculateConfidence ::
  "(string \<Rightarrow> jsnum) \<Rightarrow> SmartNotificationTiming \<Rightarrow> nat \<Rightarrow> Urgency \<Rightarrow> rat" where
  "calculateConfidence lit st hour urgencyLevel =
     (let c0 = 7/10;
          c1 = (if hour \<in> set (appUsageHours (userBehavior st)) then c0 + 2/10 else c0);
          c2 = c1 + responseRate (userBehavior st) hour * (3/10);
          c3 = c2 + (1 - getBabyScheduleConflict lit (babySchedule st) hour) * (2/10);
          c4 = (if urgencyLevel = High then c3 + 1/10 else c3)
      in min c4 1)"

fun join_comma :: "string list \<Rightarrow> string" where
  "join_comma [] = []"
| "join_comma [r] = r"
| "join_comma (r # rs) = r @ '', '' @ join_comma rs"

definition generateReasoning ::
  "(string \<Rightarrow> jsnum) \<Rightarrow> SmartNotificationTiming \<Rightarrow> nat \<Rightarrow> Urgency \<Rightarrow> string" where
  "generateReasoning lit st hour urgencyLevel =
     (let r1 = (if hour \<in> set (appUsageHours (userBehavior st))
                then [''user typically active at this time''] else []);
          r2 = (if responseRate (userBehavior st) hour > 7/10
                then r1 @ [''high historical response rate''] else r1);
          r3 = (if getBabyScheduleConflict lit (babySchedule st) hour < 3/10
                then r2 @ [''low conflict with baby's schedule''] else r2);
          r4 = (if avgResponseTime (userBehavior st) hour < 10
                then r3 @ [''user typically responds quickly''] else r3);
          r5 = (if urgencyLevel = High
                then r4 @ [''prioritized for safety importance''] else r4)
      in ''Optimal timing based on: '' @ join_comma r5)"

text \<open>The loop of \<open>generateAlternatives\<close> over the offsets, with its \<open>break\<close>.\<close>

fun alternativesLoop :: "UserBehaviorPattern \<Rightarrow> date \<Rightarrow> int list \<Rightarrow> date list \<Rightarrow> date list" where
  "alternativesLoop ub baseTime [] alternatives = alternatives"
| "alternativesLoop ub baseTime (offset # rest) alternatives =
     (let altTime = baseTime + offset * 60 * 60 * 1000;
          altHour = getHours altTime;
          alternatives' =
            (if altHour \<in> set (appUsageHours ub) \<and> responseRate ub altHour > 4/10
             then alternatives @ [altTime] else alternatives)
      in if length alternatives' \<ge> 3 then alternatives'
         else alternativesLoop ub baseTime rest alternatives')"

text \<open>
  On an Invalid Date every alternative is invalid as well and its hour is \<open>NaN\<close>, which
  is in no list of hours: nothing is collected.
\<close>

definition generateAlternatives :: "UserBehaviorPattern \<Rightarrow> date option \<Rightarrow> date list" where
  "generateAlternatives ub primaryTime =
     (case primaryTime of
        None \<Rightarrow> []
      | Some baseTime \<Rightarrow> alternativesLoop ub baseTime [-2, -1, 1, 2] [])"

definition predictOptimalTime ::
  "(string \<Rightarrow> jsnum) \<Rightarrow> SmartNotificationTiming \<Rightarrow> date \<Rightarrow> Urgency \<Rightarrow> ContentType
     \<Rightarrow> OptimalTimingResult" where
  "predictOptimalTime lit st now urgencyLevel contentType =
     (if urgencyLevel = Critical
      then \<lparr>recommendedTime = Some now, confidence = 1,
            reasoning = ''Critical safety alerts are delivered immediately regardless of timing'',
            alternativeTimes = [], shouldDelayReason = None\<rparr>
      else
        (let optimalHour = calculateOptimalHour lit st now urgencyLevel contentType;
             optimalTime = createOptimalTime now optimalHour;
             delayCheck = shouldDelayNotification lit st now optimalTime urgencyLevel
         in if shouldDelay delayCheck
            then
              (let delayedTime = findNextOptimalTime lit (userBehavior st) now optimalTime urgencyLevel
               in \<lparr>recommendedTime = delayedTime, confidence = delay_confidence delayCheck,
                    reasoning = reason delayCheck,
                    alternativeTimes = generateAlternatives (userBehavior st) delayedTime,
                    shouldDelayReason = Some (reason delayCheck)\<rparr>)
            else
              \<lparr>recommendedTime = Some optimalTime,
               confidence = calculateConfidence lit st optimalHour urgencyLevel,
               reasoning = generateReasoning lit st optimalHour urgencyLevel,
               alternativeTimes = generateAlternatives (userBehavior st) (Some optimalTime),
               shouldDelayReason = None\<rparr>))"

text \<open>
  \<open>shouldDeliverNow\<close> for a valid scheduled time. Its call of \<open>predictOptimalTime\<close>
  changes nothing and its result is not used.
\<close>

definition shouldDeliverNow ::
  "(string \<Rightarrow> jsnum) \<Rightarrow> SmartNotificationTiming \<Rightarrow> date \<Rightarrow> date \<Rightarrow> Urgency \<Rightarrow> bool" where
  "shouldDeliverNow lit st now scheduledTime urgencyLevel =
     (let timeDiff = scheduledTime - now
      in if urgencyLevel = Critical then True
         else if timeDiff \<le> 0 then True
         else if timeDiff \<le> 5 * 60 * 1000 then True
         else if urgencyLevel = High
                 \<and> calculateConfidence lit st (getHours now) High
                     > calculateConfidence lit st (getHours scheduledTime) High + 2/10
         then True
         else False)"

subsection \<open>Learning\<close>

definition recordNotificationResponse ::
  "UserBehaviorPattern \<Rightarrow> date \<Rightarrow> date \<Rightarrow> Action \<Rightarrow> UserBehaviorPattern" where
  "recordNotificationResponse ub deliveredAt respondedAt actionTaken =
     (let hour = getHours deliveredAt;
          responseTime = of_int (respondedAt - deliveredAt) / (1000 * 60);
          currentRate = responseRate ub hour;
          responseValue = (if actionTaken = Acted then 1
                           else if actionTaken = Opened then 7/10 else 2/10);
          currentAvgTime = avgResponseTime ub hour
      in ub\<lparr>responseRates := (responseRates ub)(hour \<mapsto> currentRate * (8/10) + responseValue * (2/10)),
            averageResponseTime :=
              (averageResponseTime ub)(hour \<mapsto> currentAvgTime * (8/10) + responseTime * (2/10))\<rparr>)"

text \<open>\<open>n.toString()\<close> of a natural number: its decimal digits.\<close>

definition digit_char :: "nat \<Rightarrow> char" where
  "digit_char d = ''0123456789'' ! d"

fun digits :: "nat \<Rightarrow> nat list" where
  "digits n = (if n < 10 then [n] else digits (n div 10) @ [n mod 10])"

declare digits.simps [simp del]

definition toString :: "nat \<Rightarrow> string" where
  "toString n = map digit_char (digits n)"

text \<open>The order on strings that \<open>sort\<close> uses by default: code unit by code unit.\<close>

fun string_less :: "string \<Rightarrow> string \<Rightarrow> bool" where
  "string_less [] [] = False"
| "string_less [] (y # ys) = True"
| "string_less (x # xs) [] = False"
| "string_less (x # xs) (y # ys) =
     ((of_char x :: nat) < of_char y \<or> (x = y \<and> string_less xs ys))"

text \<open>
  \<open>array.sort()\<close> with no comparison function: the elements are ordered by their
  strings, and elements with equal strings keep their order.
\<close>

fun sort_insert :: "nat \<Rightarrow> nat list \<Rightarrow> nat list" where
  "sort_insert x [] = [x]"
| "sort_insert x (y # ys) =
     (if string_less (toString y) (toString x) then y # sort_insert x ys else x # y # ys)"

definition js_sort :: "nat list \<Rightarrow> nat list" where
  "js_sort xs = foldr sort_insert xs []"

definition recordAppUsage :: "UserBehaviorPattern \<Rightarrow> date \<Rightarrow> UserBehaviorPattern" where
  "recordAppUsage ub timestamp =
     (let hour = getHours timestamp;
          usage = (if hour \<in> set (appUsageHours ub) then appUsageHours ub
                   else js_sort (appUsageHours ub @ [hour]));
          dayName = getDayName (getDay timestamp);
          day0 = (case weeklyPattern ub dayName of None \<Rightarrow> [] | Some hours \<Rightarrow> hours);
          day1 = (if hour \<in> set day0 then day0 else js_sort (day0 @ [hour]))
      in ub\<lparr>appUsageHours := usage,
            weeklyPattern := (weeklyPattern ub)(dayName \<mapsto> day1),
            lastActiveTime := timestamp\<rparr>)"

subsection \<open>The state the constructor builds\<close>

definition defaultBehavior :: "date \<Rightarrow> UserBehaviorPattern" where
  "defaultBehavior now =
     \<lparr>appUsageHours = [7, 8, 12, 15, 19, 21],
      responseRates = map_of [(7, 85/100), (8, 90/100), (12, 75/100), (15, 80/100),
                              (19, 85/100), (21, 70/100)],
      averageResponseTime = map_of [(7, 5), (8, 3), (12, 15), (15, 8), (19, 5), (21, 20)],
      quietPeriods = [\<lparr>q_start = ''22:00'', q_end = ''07:00''\<rparr>,
                      \<lparr>q_start = ''13:00'', q_end = ''15:00''\<rparr>],
      lastActiveTime = now,
      weeklyPattern = map_of
        [(''monday'', [8, 12, 19]), (''tuesday'', [7, 12, 15, 19]),
         (''wednesday'', [8, 12, 19, 21]), (''thursday'', [7, 12, 15, 19]),
         (''friday'', [8, 12, 19, 21]), (''saturday'', [9, 14, 20]),
         (''sunday'', [10, 15, 19])]\<rparr>"

definition defaultSchedule :: BabyScheduleData where
  "defaultSchedule =
     \<lparr>napTimes = [\<lparr>nap_start = ''09:30'', nap_end = ''11:00'', reliability = 8/10\<rparr>,
                  \<lparr>nap_start = ''13:00'', nap_end = ''15:00'', reliability = 9/10\<rparr>,
                  \<lparr>nap_start = ''17:30'', nap_end = ''18:00'', reliability = 6/10\<rparr>],
      bedtime = \<lparr>clock_time = ''19:30'', consistency = 85/100\<rparr>,
      wakeupTime = \<lparr>clock_time = ''07:00'', consistency = 75/100\<rparr>,
      feedingTimes = [7, 10, 13, 16, 19, 22],
      fussyPeriods = [\<lparr>fussy_start = ''17:00'', fussy_end = ''19:00'', intensity = 8/10\<rparr>,
                      \<lparr>fussy_start = ''05:00'', fussy_end = ''06:00'', intensity = 6/10\<rparr>]\<rparr>"

definition defaultTiming :: "date \<Rightarrow> SmartNotificationTiming" where
  "defaultTiming now =
     \<lparr>userBehavior = defaultBehavior now, babySchedule = defaultSchedule,
      contextualFactors = \<lparr>dayOfWeek = getDay now, isHoliday = False\<rparr>\<rparr>"

section \<open>NotificationService\<close>

datatype HighSchedule = Immediate | NextOptimal | EveningDigest

datatype MediumFrequency = FreqImmediate | DailyDigest | Weekly | Disabled

text \<open>
  The preferences, with the nested objects flattened; the display-only group
  \<open>general\<close> and \<open>medium.batchWith\<close> play no part in scheduling and are left out.
\<close>

record NotificationPreferences =
  critical_enabled :: bool
  critical_disabled :: bool
  high_enabled :: bool
  high_schedule :: HighSchedule
  quietHours_enabled :: bool
  quietHours_start :: string
  quietHours_end :: string
  medium_enabled :: bool
  medium_frequency :: MediumFrequency

record ScheduledNotification =
  notif_id :: string
  recallId :: string
  ntype :: Urgency
  title :: string
  body :: string
  scheduledFor :: date
  personalizedMessage :: "string option"
  actionUrl :: "string option"
  priority :: nat
  timingReasoning :: "string option"
  notif_confidence :: "rat option"

record DeliveryTiming =
  d_time :: "date option"
  d_reasoning :: string
  d_confidence :: rat

text \<open>
  The service: its preferences, the pending map \<open>scheduledNotifications\<close>, the timing
  engine, the callbacks registered with \<open>setTimeout\<close> and not yet run (each is the
  closure over its notification), and the log of the calls of \<open>sendNotification\<close> with
  their results.
\<close>

record NotificationService =
  preferences :: NotificationPreferences
  scheduledNotifications :: "string \<rightharpoonup> ScheduledNotification"
  smartTiming :: SmartNotificationTiming
  timers :: "ScheduledNotification list"
  sendLog :: "(ScheduledNotification \<times> bool) list"

definition defaultPreferences :: NotificationPreferences where
  "defaultPreferences =
     \<lparr>critical_enabled = True, critical_disabled = True,
      high_enabled = True, high_schedule = Immediate,
      quietHours_enabled = True, quietHours_start = ''22:00'', quietHours_end = ''07:00'',
      medium_enabled = True, medium_frequency = DailyDigest\<rparr>"

definition newService :: "date \<Rightarrow> NotificationService" where
  "newService now =
     \<lparr>preferences = defaultPreferences, scheduledNotifications = Map.empty,
      smartTiming = defaultTiming now, timers = [], sendLog = []\<rparr>"

definition isInQuietHours :: "(string \<Rightarrow> jsnum) \<Rightarrow> NotificationPreferences \<Rightarrow> date \<Rightarrow> bool" where
  "isInQuietHours lit prefs now =
     (if \<not> quietHours_enabled prefs then False
      else
        (let currentTime = Num (of_nat (getHours now * 60 + getMinutes now));
             start = parseTime_minutes lit (quietHours_start prefs);
             end' = parseTime_minutes lit (quietHours_end prefs)
         in if js_gt start end' then js_ge currentTime start \<or> js_le currentTime end'
            else js_ge currentTime start \<and> js_le currentTime end'))"

definition getEveningDigestTime :: "date \<Rightarrow> date" where
  "getEveningDigestTime now =
     (let digestTime = setHours now 19 0
      in if digestTime \<le> now then nextDay digestTime else digestTime)"

definition calculateOptimalDeliveryTime ::
  "(string \<Rightarrow> jsnum) \<Rightarrow> NotificationService \<Rightarrow> date \<Rightarrow> Urgency \<Rightarrow> DeliveryTiming" where
  "calculateOptimalDeliveryTime lit svc now urgencyLevel =
     (if urgencyLevel = Critical
      then \<lparr>d_time = Some now,
            d_reasoning = ''Critical safety alerts are delivered immediately'',
            d_confidence = 1\<rparr>
      else
        (let optimalResult = predictOptimalTime lit (smartTiming svc) now urgencyLevel Recall;
             fromEngine = \<lparr>d_time = recommendedTime optimalResult,
                            d_reasoning = reasoning optimalResult,
                            d_confidence = confidence optimalResult\<rparr>
         in if urgencyLevel = High
            then (case high_schedule (preferences svc) of
                    Immediate \<Rightarrow>
                      if \<not> isInQuietHours lit (preferences svc) now
                      then \<lparr>d_time = Some now,
                            d_reasoning = ''User preference: immediate delivery outside quiet hours'',
                            d_confidence = 8/10\<rparr>
                      else fromEngine
                  | EveningDigest \<Rightarrow>
                      \<lparr>d_time = Some (getEveningDigestTime now),
                       d_reasoning = ''User preference: evening digest delivery'',
                       d_confidence = 9/10\<rparr>
                  | NextOptimal \<Rightarrow> fromEngine)
            else fromEngine))"

text \<open>
  \<open>sendNotification\<close>. Whether the permission is granted and the browser accepts the
  notification is the transport's answer \<open>deliver\<close>; the call and its result are logged.
\<close>

definition sendNotification ::
  "(ScheduledNotification \<Rightarrow> bool) \<Rightarrow> NotificationService \<Rightarrow> ScheduledNotification
     \<Rightarrow> bool \<times> NotificationService" where
  "sendNotification deliver svc notification =
     (deliver notification,
      svc\<lparr>sendLog := sendLog svc @ [(notification, deliver notification)]\<rparr>)"

text \<open>A template literal prints \<open>Date.now()\<close> in decimal.\<close>

definition show_int :: "int \<Rightarrow> string" where
  "show_int i = (if i < 0 then ''-'' @ toString (nat (- i)) else toString (nat i))"

text \<open>
  The record that \<open>scheduleRecallNotification\<close> builds. \<open>message\<close> is the text that
  \<open>generatePersonalizedMessage\<close> picks at random.
\<close>

definition recallNotification ::
  "date \<Rightarrow> string \<Rightarrow> Urgency \<Rightarrow> string \<Rightarrow> string \<Rightarrow> date \<Rightarrow> DeliveryTiming \<Rightarrow> ScheduledNotification" where
  "recallNotification now recall urgencyLevel message hazardDescription time timingResult =
     \<lparr>notif_id = ''recall-'' @ recall @ ''-'' @ show_int now,
      recallId = recall,
      ntype = urgencyLevel,
      title = message,
      body = hazardDescription,
      scheduledFor = time,
      personalizedMessage = Some message,
      actionUrl = Some (''/recalls/'' @ recall),
      priority = (if urgencyLevel = Critical then 10 else if urgencyLevel = High then 7 else 4),
      timingReasoning = Some (d_reasoning timingResult),
      notif_confidence = Some (d_confidence timingResult)\<rparr>"

text \<open>
  \<open>scheduleRecallNotification\<close>. The result is \<open>None\<close> when the engine hands back an
  Invalid Date: what the service does with that is outside this model.
\<close>

definition scheduleRecallNotification ::
  "(string \<Rightarrow> jsnum) \<Rightarrow> (ScheduledNotification \<Rightarrow> bool) \<Rightarrow> NotificationService \<Rightarrow> date
     \<Rightarrow> string \<Rightarrow> Urgency \<Rightarrow> string \<Rightarrow> string \<Rightarrow> (bool \<times> NotificationService) option" where
  "scheduleRecallNotification lit deliver svc now recall urgencyLevel message hazardDescription =
     (if urgencyLevel = High \<and> \<not> high_enabled (preferences svc) then Some (False, svc)
      else if urgencyLevel = Medium \<and> \<not> medium_enabled (preferences svc) then Some (False, svc)
      else
        (let timingResult = calculateOptimalDeliveryTime lit svc now urgencyLevel
         in case d_time timingResult of
              None \<Rightarrow> None
            | Some time \<Rightarrow>
                (let notification = recallNotification now recall urgencyLevel message
                                      hazardDescription time timingResult;
                     svc1 = svc\<lparr>scheduledNotifications :=
                                  (scheduledNotifications svc)(notif_id notification \<mapsto> notification)\<rparr>
                 in if time \<le> now then Some (sendNotification deliver svc1 notification)
                    else Some (True, svc1\<lparr>timers := timers svc1 @ [notification]\<rparr>))))"

text \<open>
  The callback given to \<open>setTimeout\<close>, run at the time \<open>now\<close> for the notification it
  closes over.
\<close>

definition timerCallback ::
  "(string \<Rightarrow> jsnum) \<Rightarrow> (ScheduledNotification \<Rightarrow> bool) \<Rightarrow> NotificationService \<Rightarrow> date
     \<Rightarrow> ScheduledNotification \<Rightarrow> NotificationService" where
  "timerCallback lit deliver svc now notification =
     (let svc1 = (if shouldDeliverNow lit (smartTiming svc) now (scheduledFor notification)
                       (ntype notification)
                  then snd (sendNotification deliver svc notification) else svc)
      in svc1\<lparr>scheduledNotifications := (scheduledNotifications svc1)(notif_id notification := None),
              timers := remove1 notification (timers svc1)\<rparr>)"

text \<open>The title of a critical alert starts with the police-light emoji, here in UTF-8.\<close>

definition criticalTitle :: "string \<Rightarrow> string" where
  "criticalTitle productName =
     [CHR 0xF0, CHR 0x9F, CHR 0x9A, CHR 0xA8] @ '' URGENT: '' @ productName @ '' Safety Alert''"

definition criticalAlert :: "date \<Rightarrow> string \<Rightarrow> string \<Rightarrow> string \<Rightarrow> string \<Rightarrow> ScheduledNotification" where
  "criticalAlert now recall productName hazardDescription message =
     \<lparr>notif_id = ''critical-'' @ recall @ ''-'' @ show_int now,
      recallId = recall,
      ntype = Critical,
      title = criticalTitle productName,
      body = ''Stop using immediately. '' @ hazardDescription,
      scheduledFor = now,
      personalizedMessage = Some message,
      actionUrl = Some (''/recalls/'' @ recall),
      priority = 10,
      timingReasoning = None,
      notif_confidence = None\<rparr>"

definition sendCriticalRecallAlert ::
  "(ScheduledNotification \<Rightarrow> bool) \<Rightarrow> NotificationService \<Rightarrow> date
     \<Rightarrow> string \<Rightarrow> string \<Rightarrow> string \<Rightarrow> string \<Rightarrow> bool \<times> NotificationService" where
  "sendCriticalRecallAlert deliver svc now recall productName hazardDescription message =
     sendNotification deliver svc (criticalAlert now recall productName hazardDescription message)"

text \<open>\<open>cancelNotification\<close>: \<open>Map.delete\<close> answers whether the key was there.\<close>

definition cancelNotification :: "NotificationService \<Rightarrow> string \<Rightarrow> bool \<times> NotificationService" where
  "cancelNotification svc notificationId =
     (scheduledNotifications svc notificationId \<noteq> None,
      svc\<lparr>scheduledNotifications := (scheduledNotifications svc)(notificationId := None)\<rparr>)"

definition recordNotificationInteraction ::
  "NotificationService \<Rightarrow> date \<Rightarrow> string \<Rightarrow> Action \<Rightarrow> NotificationService" where
  "recordNotificationInteraction svc now notificationId action =
     (case scheduledNotifications svc notificationId of
        None \<Rightarrow> svc
      | Some notification \<Rightarrow>
          svc\<lparr>smartTiming := (smartTiming svc)
                \<lparr>userBehavior := recordNotificationResponse (userBehavior (smartTiming svc))
                                    (scheduledFor notification) now action\<rparr>\<rparr>)"

text \<open>
  \<open>updatePreferences({high: ...})\<close>: the group \<open>high\<close> is replaced as it comes, and its
  quiet hours become the engine's only quiet period. Nothing is checked.
\<close>

definition updatePreferences_high ::
  "NotificationService \<Rightarrow> bool \<Rightarrow> HighSchedule \<Rightarrow> bool \<Rightarrow> string \<Rightarrow> string \<Rightarrow> NotificationService" where
  "updatePreferences_high svc enabled schedule quietEnabled start end' =
     svc\<lparr>preferences := (preferences svc)
            \<lparr>high_enabled := enabled, high_schedule := schedule,
             quietHours_enabled := quietEnabled, quietHours_start := start, quietHours_end := end'\<rparr>,
         smartTiming := (smartTiming svc)
            \<lparr>userBehavior := (userBehavior (smartTiming svc))
               \<lparr>quietPeriods := [\<lparr>q_start = start, q_end = end'\<rparr>]\<rparr>\<rparr>\<rparr>"

text \<open>\<open>SmartNotificationTiming.updateBabySchedule({napTimes: ...})\<close>.\<close>

definition updateBabySchedule_napTimes ::
  "SmartNotificationTiming \<Rightarrow> NapTime list \<Rightarrow> SmartNotificationTiming" where
  "updateBabySchedule_napTimes st naps = st\<lparr>babySchedule := (babySchedule st)\<lparr>napTimes := naps\<rparr>\<rparr>"

section \<open>Notions of the specification\<close>

text \<open>The in-range rule, in the specification's words.\<close>

definition inRangeRule :: "rat \<Rightarrow> rat \<Rightarrow> rat \<Rightarrow> bool" where
  "inRangeRule point start end' =
     (if start \<le> end' then start \<le> point \<and> point \<le> end'
      else point \<ge> start \<or> point \<le> end')"

text \<open>The string \<open>HH:MM\<close> of an hour and a minute, two digits each.\<close>

definition hhmm :: "nat \<Rightarrow> nat \<Rightarrow> string" where
  "hhmm h m = [digit_char (h div 10), digit_char (h mod 10), CHR '':'',
               digit_char (m div 10), digit_char (m mod 10)]"

text \<open>The date of the clock time \<open>h:m\<close> on the day number \<open>day\<close>.\<close>

definition at_clock :: "int \<Rightarrow> nat \<Rightarrow> nat \<Rightarrow> date" where
  "at_clock day h m = day * msPerDay + int h * msPerHour + int m * 60000"

text \<open>Preferences with the quiet hours from 22:00 to 07:00 switched on.\<close>

definition overnightPrefs :: "NotificationPreferences \<Rightarrow> NotificationPreferences" where
  "overnightPrefs prefs =
     prefs\<lparr>quietHours_enabled := True, quietHours_start := ''22:00'', quietHours_end := ''07:00''\<rparr>"

text \<open>
  A value for the parameter \<open>lit\<close> in evaluations on strings of digits and colons, where
  it is never consulted.
\<close>

definition noOtherLiterals :: "string \<Rightarrow> jsnum" where
  "noOtherLiterals s = NaN"

text \<open>Whether a nap window, or a fussy period, contains an hour.\<close>

definition napContains :: "(string \<Rightarrow> jsnum) \<Rightarrow> nat \<Rightarrow> NapTime \<Rightarrow> bool" where
  "napContains lit hour nap =
     isHourInRange (Num (of_nat hour)) (parseTime lit (nap_start nap)) (parseTime lit (nap_end nap))"

definition fussyContains :: "(string \<Rightarrow> jsnum) \<Rightarrow> nat \<Rightarrow> FussyPeriod \<Rightarrow> bool" where
  "fussyContains lit hour fussy =
     isHourInRange (Num (of_nat hour)) (parseTime lit (fussy_start fussy)) (parseTime lit (fussy_end fussy))"

text \<open>The conflict of an hour before the cap, as the specification sums it.\<close>

definition conflictSum :: "(string \<Rightarrow> jsnum) \<Rightarrow> BabyScheduleData \<Rightarrow> nat \<Rightarrow> rat" where
  "conflictSum lit bs hour =
     (\<Sum>nap \<leftarrow> filter (napContains lit hour) (napTimes bs). reliability nap * (8/10))
     + (\<Sum>fussy \<leftarrow> filter (fussyContains lit hour) (fussyPeriods bs). intensity fussy * (6/10))
     + (if hour \<in> set (feedingTimes bs) then 2/10 else 0)"

text \<open>
  The response rate of an hour, in the specification's words: the stored rate, and 0.5
  for an hour with no stored rate.
\<close>

definition storedRate :: "UserBehaviorPattern \<Rightarrow> nat \<Rightarrow> rat" where
  "storedRate ub hour = (case responseRates ub hour of None \<Rightarrow> 1/2 | Some rate \<Rightarrow> rate)"

text \<open>
  The ordered rule list of the delay arbiter, in the specification's words: the decision
  and its confidence. The conflict is the capped sum of the specification, the rate the
  stored rate.
\<close>

definition delayRule ::
  "(string \<Rightarrow> jsnum) \<Rightarrow> SmartNotificationTiming \<Rightarrow> date \<Rightarrow> date \<Rightarrow> Urgency \<Rightarrow> bool \<times> rat" where
  "delayRule lit st now proposedTime urgencyLevel =
     (let hour = getHours proposedTime;
          conflict = min 1 (conflictSum lit (babySchedule st) hour);
          rate = storedRate (userBehavior st) hour
      in if urgencyLevel = High \<and> proposedTime - now < 4 * msPerHour then (False, 8/10)
         else if \<exists>quiet \<in> set (quietPeriods (userBehavior st)). isTimeInQuietPeriod lit proposedTime quiet
              then (True, 9/10)
         else if conflict > 7/10 then (True, conflict)
         else if urgencyLevel = Medium \<and> rate < 3/10 then (True, 1 - rate)
         else (False, 8/10))"

text \<open>
  The default engine with a stored response rate for hour 16: of 0, for a caregiver who
  has never responded at that hour, and of 0.2.
\<close>

definition zeroRateTiming :: SmartNotificationTiming where
  "zeroRateTiming =
     (defaultTiming 0)\<lparr>userBehavior := (defaultBehavior 0)
        \<lparr>responseRates := (responseRates (defaultBehavior 0))(16 \<mapsto> 0)\<rparr>\<rparr>"

definition lowRateTiming :: SmartNotificationTiming where
  "lowRateTiming =
     (defaultTiming 0)\<lparr>userBehavior := (defaultBehavior 0)
        \<lparr>responseRates := (responseRates (defaultBehavior 0))(16 \<mapsto> 2/10)\<rparr>\<rparr>"

text \<open>The nap of the scenario, and an engine with the default schedule and no quiet period.\<close>

definition afternoonNap :: NapTime where
  "afternoonNap = \<lparr>nap_start = ''13:00'', nap_end = ''15:00'', reliability = 9/10\<rparr>"

definition napOnlyTiming :: SmartNotificationTiming where
  "napOnlyTiming =
     (defaultTiming 0)\<lparr>userBehavior := (defaultBehavior 0)\<lparr>quietPeriods := []\<rparr>\<rparr>"

text \<open>
  The \<open>i\<close>-th hourly step after \<open>t\<close> is acceptable: a valid date, outside every quiet
  period and with a response rate above 0.5.
\<close>

definition acceptable :: "(string \<Rightarrow> jsnum) \<Rightarrow> UserBehaviorPattern \<Rightarrow> date \<Rightarrow> nat \<Rightarrow> bool" where
  "acceptable lit ub t i =
     (\<bar>t + int i * msPerHour\<bar> \<le> maxTimeValue
      \<and> \<not> list_ex (isTimeInQuietPeriod lit (t + int i * msPerHour)) (quietPeriods ub)
      \<and> responseRate ub (getHours (t + int i * msPerHour)) > 1/2)"

text \<open>
  The next active hour after an hour, in the specification's words: the least candidate
  above the hour, and the least candidate of all when none is above it.
\<close>

definition nextActiveSpec :: "nat list \<Rightarrow> nat \<Rightarrow> nat option" where
  "nextActiveSpec pattern h =
     (if pattern = [] then None
      else if \<exists>x \<in> set pattern. x > h then Some (Min {x \<in> set pattern. x > h})
      else Some (Min (set pattern)))"

text \<open>
  The default profile after app usage was recorded on a Thursday at 09:00, and a profile
  with no active hour at all.
\<close>

definition usedOnce :: UserBehaviorPattern where
  "usedOnce = recordAppUsage (defaultBehavior 0) (at_clock 0 9 0)"

definition noCandidates :: UserBehaviorPattern where
  "noCandidates = (defaultBehavior 0)\<lparr>appUsageHours := [], weeklyPattern := Map.empty\<rparr>"

text \<open>
  A transport that accepts every notification, and preferences with the high and the
  medium tier switched off.
\<close>

definition transportAccepts :: "ScheduledNotification \<Rightarrow> bool" where
  "transportAccepts notification = True"

definition allDisabled :: NotificationPreferences where
  "allDisabled = defaultPreferences\<lparr>high_enabled := False, medium_enabled := False,
                   medium_frequency := Disabled\<rparr>"

text \<open>The timing results of the two immediate branches of \<open>calculateOptimalDeliveryTime\<close>.\<close>

definition criticalTiming :: "date \<Rightarrow> DeliveryTiming" where
  "criticalTiming now = \<lparr>d_time = Some now,
      d_reasoning = ''Critical safety alerts are delivered immediately'', d_confidence = 1\<rparr>"

definition immediateTiming :: "date \<Rightarrow> DeliveryTiming" where
  "immediateTiming now = \<lparr>d_time = Some now,
      d_reasoning = ''User preference: immediate delivery outside quiet hours'',
      d_confidence = 8/10\<rparr>"

text \<open>The service with a notification entered in the pending map.\<close>

definition storePending :: "NotificationService \<Rightarrow> ScheduledNotification \<Rightarrow> NotificationService" where
  "storePending svc n = svc\<lparr>scheduledNotifications := (scheduledNotifications svc)(notif_id n \<mapsto> n)\<rparr>"

text \<open>
  A held notification, as scheduling a medium-urgency recall on Thursday 09:00 leaves it:
  due Friday 08:00, pending, with its callback registered.
\<close>

definition heldNotification :: ScheduledNotification where
  "heldNotification =
     recallNotification (at_clock 0 9 0) ''r2'' Medium ''msg'' ''hazard'' (at_clock 1 8 0)
       \<lparr>d_time = Some (at_clock 1 8 0), d_reasoning = ''Proposed time conflicts with quiet hours'',
        d_confidence = 9/10\<rparr>"

definition heldService :: NotificationService where
  "heldService = (storePending (newService 0) heldNotification)\<lparr>timers := [heldNotification]\<rparr>"

text \<open>
  An engine whose caregiver is best reached at midnight on Thursdays: hour 0 is a
  Thursday candidate with response rate 0.95 and a response time of 2 minutes.
\<close>

definition midnightTiming :: SmartNotificationTiming where
  "midnightTiming =
     (defaultTiming 0)\<lparr>userBehavior := (defaultBehavior 0)
        \<lparr>responseRates := (responseRates (defaultBehavior 0))(0 \<mapsto> 95/100),
         averageResponseTime := (averageResponseTime (defaultBehavior 0))(0 \<mapsto> 2),
         weeklyPattern := (weeklyPattern (defaultBehavior 0))(''thursday'' \<mapsto> [0, 12])\<rparr>\<rparr>"

text \<open>The default engine after app usage was recorded on a Thursday at 09:00 and at 10:00.\<close>

definition usedTwice :: SmartNotificationTiming where
  "usedTwice =
     (defaultTiming 0)\<lparr>userBehavior :=
        recordAppUsage (recordAppUsage (defaultBehavior 0) (at_clock 0 9 0)) (at_clock 0 10 0)\<rparr>"

section \<open>Properties\<close>

subsection \<open>Time strings and clock times\<close>

lemma digit_enum: "d < 10 \<Longrightarrow> d \<in> {0, 1, 2, 3, 4, 5, 6, 7, 8, 9::nat}"
  by auto

lemma digit_of_digit_char: "d < 10 \<Longrightarrow> digit_of (digit_char d) = Some d"
  using digit_enum [of d] by (auto simp: digit_of_def digit_char_def)

lemma digit_char_not_colon: "d < 10 \<Longrightarrow> digit_char d \<noteq> CHR '':''"
  using digit_enum [of d] by (auto simp: digit_char_def)

lemma is_digit_digit_char: "d < 10 \<Longrightarrow> is_digit (digit_char d)"
  by (simp add: is_digit_def digit_of_digit_char)

lemma Number_two_digits:
  "a < 10 \<Longrightarrow> b < 10 \<Longrightarrow> Number_js lit [digit_char a, digit_char b] = Num (of_nat (10 * a + b))"
  by (simp add: Number_js_def is_digit_digit_char dec_value_def digit_of_digit_char)

lemma split_hhmm:
  "h < 100 \<Longrightarrow> m < 100 \<Longrightarrow> split_colon (hhmm h m) =
     [ [digit_char (h div 10), digit_char (h mod 10)], [digit_char (m div 10), digit_char (m mod 10)] ]"
  by (simp add: split_colon_def hhmm_def digit_char_not_colon)

lemma time_fields_hhmm:
  assumes "h < 100" "m < 100"
  shows "time_fields lit (hhmm h m) = (Num (of_nat h), Some (Num (of_nat m)))"
proof -
  have "h div 10 < 10" "h mod 10 < 10" "m div 10 < 10" "m mod 10 < 10" using assms by auto
  then show ?thesis
    using assms by (simp add: time_fields_def split_hhmm Number_two_digits del: of_nat_add of_nat_mult)
qed

lemma parseTime_minutes_hhmm:
  "h < 100 \<Longrightarrow> m < 100 \<Longrightarrow> parseTime_minutes lit (hhmm h m) = Num (of_nat (h * 60 + m))"
  by (simp add: parseTime_minutes_def time_fields_hhmm)

lemma parseTime_hhmm:
  "h < 100 \<Longrightarrow> m < 100 \<Longrightarrow> parseTime lit (hhmm h m) = Num (of_nat h + of_nat m / 60)"
  by (simp add: parseTime_def time_fields_hhmm)

lemma isHourInRange_Num: "isHourInRange (Num p) (Num s) (Num e) = inRangeRule p s e"
  by (simp add: isHourInRange_def inRangeRule_def js_ge_def)

lemma hhmm_2200: "hhmm 22 0 = ''22:00''"
  by (simp add: hhmm_def digit_char_def)

lemma hhmm_0700: "hhmm 7 0 = ''07:00''"
  by (simp add: hhmm_def digit_char_def)

lemma parse_2200: "parseTime_minutes lit ''22:00'' = Num 1320"
  using parseTime_minutes_hhmm [of 22 0 lit] by (simp add: hhmm_2200)

lemma parse_0700: "parseTime_minutes lit ''07:00'' = Num 420"
  using parseTime_minutes_hhmm [of 7 0 lit] by (simp add: hhmm_0700)

lemma at_clock_div_hour:
  assumes "m < 60"
  shows "at_clock day h m div msPerHour = day * 24 + int h"
proof -
  have e: "at_clock day h m = (day * 24 + int h) * 3600000 + int m * 60000"
    by (simp add: at_clock_def msPerDay_def msPerHour_def algebra_simps)
  have "0 \<le> int m * 60000" "int m * 60000 < 3600000" using assms by auto
  then have "((day * 24 + int h) * 3600000 + int m * 60000) div 3600000 = day * 24 + int h"
    by (simp add: div_pos_pos_trivial)
  then show ?thesis by (simp add: e msPerHour_def)
qed

lemma getHours_at_clock: "h < 24 \<Longrightarrow> m < 60 \<Longrightarrow> getHours (at_clock day h m) = h"
  by (simp add: getHours_def at_clock_div_hour)

lemma getMinutes_at_clock:
  assumes "m < 60"
  shows "getMinutes (at_clock day h m) = m"
proof -
  have e: "at_clock day h m = (int m + 60 * (day * 24 + int h)) * 60000"
    by (simp add: at_clock_def msPerDay_def msPerHour_def algebra_simps)
  have d: "at_clock day h m div 60000 = int m + 60 * (day * 24 + int h)"
    unfolding e by simp
  have "(at_clock day h m div 60000) mod 60 = int m mod 60"
    unfolding d by (simp only: mod_mult_self2)
  also have "\<dots> = int m" using assms by simp
  finally show ?thesis by (simp add: getMinutes_def)
qed

lemma quiet_overnight:
  "isInQuietHours lit (overnightPrefs prefs) now
     = (1320 \<le> getHours now * 60 + getMinutes now \<or> getHours now * 60 + getMinutes now \<le> 420)"
  by (simp add: isInQuietHours_def overnightPrefs_def parse_2200 parse_0700 js_ge_def
        del: of_nat_add of_nat_mult)

text \<open>The equations that evaluate the two parsers on a string of digits and colons.\<close>

lemmas eval_parse = parseTime_def parseTime_minutes_def time_fields_def split_colon_def
  Number_js_def is_digit_def digit_of_def dec_value_def noOtherLiterals_def

subsection \<open>C2: the in-range test and overnight quiet hours\<close>

text \<open>
  Claim C2. On numbers, \<open>isHourInRange\<close> is the in-range rule: between start and end
  when start is at most end, and at or after start or at or before end when the window
  wraps midnight. With quiet hours from 22:00 to 07:00 switched on, \<open>isInQuietHours\<close>
  holds at 23:30 and at 03:00 and fails at 12:00, on any day. A nap, a fussy period and
  a quiet period given by well-formed \<open>HH:MM\<close> strings contain an hour exactly by the
  same rule on the parsed clock times.
\<close>

theorem in_range_wraparound:
  "isHourInRange (Num point) (Num start) (Num end') = inRangeRule point start end'
   \<and> isInQuietHours lit (overnightPrefs prefs) (at_clock day 23 30)
   \<and> isInQuietHours lit (overnightPrefs prefs) (at_clock day 3 0)
   \<and> \<not> isInQuietHours lit (overnightPrefs prefs) (at_clock day 12 0)
   \<and> (sh < 24 \<and> sm < 60 \<and> eh < 24 \<and> em < 60 \<longrightarrow>
        napStep lit hour c \<lparr>nap_start = hhmm sh sm, nap_end = hhmm eh em, reliability = r\<rparr>
          = (if inRangeRule (of_nat hour) (of_nat sh + of_nat sm / 60) (of_nat eh + of_nat em / 60)
             then c + r * (8/10) else c)
      \<and> fussyStep lit hour c \<lparr>fussy_start = hhmm sh sm, fussy_end = hhmm eh em, intensity = r\<rparr>
          = (if inRangeRule (of_nat hour) (of_nat sh + of_nat sm / 60) (of_nat eh + of_nat em / 60)
             then c + r * (6/10) else c)
      \<and> isTimeInQuietPeriod lit t \<lparr>q_start = hhmm sh sm, q_end = hhmm eh em\<rparr>
          = inRangeRule (of_nat (getHours t) + of_nat (getMinutes t) / 60)
              (of_nat sh + of_nat sm / 60) (of_nat eh + of_nat em / 60))"
proof -
  have q1: "isInQuietHours lit (overnightPrefs prefs) (at_clock day 23 30)"
    by (simp add: quiet_overnight getHours_at_clock getMinutes_at_clock)
  have q2: "isInQuietHours lit (overnightPrefs prefs) (at_clock day 3 0)"
    by (simp add: quiet_overnight getHours_at_clock getMinutes_at_clock)
  have q3: "\<not> isInQuietHours lit (overnightPrefs prefs) (at_clock day 12 0)"
    by (simp add: quiet_overnight getHours_at_clock getMinutes_at_clock)
  show ?thesis
    using q1 q2 q3
    by (simp add: isHourInRange_Num napStep_def fussyStep_def isTimeInQuietPeriod_def parseTime_hhmm)
qed

text \<open>The theorem at a window that wraps midnight and at the nap from 13:00 to 15:00.\<close>

theorem in_range_wraparound_witness:
  "isHourInRange (Num 23) (Num 22) (Num 7)
   \<and> \<not> isHourInRange (Num 12) (Num 22) (Num 7)
   \<and> isInQuietHours noOtherLiterals (overnightPrefs defaultPreferences) (at_clock 0 23 30)
   \<and> napStep noOtherLiterals 14 0 \<lparr>nap_start = ''13:00'', nap_end = ''15:00'', reliability = 9/10\<rparr> = 18/25
   \<and> fussyStep noOtherLiterals 23 0 \<lparr>fussy_start = ''22:00'', fussy_end = ''07:00'', intensity = 1/2\<rparr> = 3/10"
  using in_range_wraparound [where point = 23 and start = 22 and end' = 7 and lit = noOtherLiterals
      and prefs = defaultPreferences and day = 0 and sh = 13 and sm = 0 and eh = 15 and em = 0
      and hour = 14 and c = 0 and r = "9/10"]
    in_range_wraparound [where point = 12 and start = 22 and end' = 7 and lit = noOtherLiterals
      and prefs = defaultPreferences and day = 0 and sh = 22 and sm = 0 and eh = 7 and em = 0
      and hour = 23 and c = 0 and r = "1/2"]
  by (simp add: inRangeRule_def hhmm_def digit_char_def)

subsection \<open>C8: parsing time strings\<close>

text \<open>
  Claim C8 as stated fails: no time string is rejected. \<open>25:00\<close> is parsed to 1500
  minutes, the engine's own \<open>parseTime\<close> gives hours and not minutes (13.5 for
  \<open>13:30\<close>), a string with no colon gives \<open>NaN\<close>, and a preference update stores
  \<open>25:00\<close> as the start of the quiet hours.
\<close>

theorem parseTime_unchecked_counterexample:
  "parseTime_minutes noOtherLiterals ''25:00'' = Num 1500
   \<and> parseTime noOtherLiterals ''13:30'' = Num (27/2)
   \<and> parseTime_minutes noOtherLiterals ''2200'' = NaN
   \<and> quietHours_start (preferences
        (updatePreferences_high (newService 0) True Immediate True ''25:00'' ''07:00'')) = ''25:00''"
  by (simp add: parseTime_minutes_def parseTime_def time_fields_def split_colon_def Number_js_def
      is_digit_def digit_of_def dec_value_def updatePreferences_high_def)

text \<open>
  Claim C8, amended. For a string \<open>HH:MM\<close> with an hour below 24 and a minute below 60,
  \<open>NotificationService.parseTime\<close> gives the minutes since midnight and
  \<open>SmartNotificationTiming.parseTime\<close> gives the hours since midnight as a fraction;
  updates of the preferences and of the nap times store the strings they are given.
\<close>

theorem parseTime_wellformed:
  assumes "h < 24" and "m < 60"
  shows "parseTime_minutes lit (hhmm h m) = Num (of_nat (h * 60 + m))
       \<and> parseTime lit (hhmm h m) = Num (of_nat h + of_nat m / 60)
       \<and> quietHours_start (preferences (updatePreferences_high svc en sch qe s e)) = s
       \<and> quietHours_end (preferences (updatePreferences_high svc en sch qe s e)) = e
       \<and> quietPeriods (userBehavior (smartTiming (updatePreferences_high svc en sch qe s e)))
           = [\<lparr>q_start = s, q_end = e\<rparr>]
       \<and> napTimes (babySchedule (updateBabySchedule_napTimes st naps)) = naps"
  using assms
  by (simp add: parseTime_minutes_hhmm parseTime_hhmm updatePreferences_high_def
      updateBabySchedule_napTimes_def del: of_nat_add of_nat_mult)

theorem parseTime_wellformed_witness:
  "parseTime_minutes noOtherLiterals ''23:59'' = Num 1439
   \<and> parseTime noOtherLiterals ''23:59'' = Num (23 + 59/60)"
  using parseTime_wellformed [of 23 59 noOtherLiterals]
  by (simp add: hhmm_def digit_char_def)

subsection \<open>C4: the baby-schedule conflict\<close>

lemma foldl_napStep:
  "foldl (napStep lit hour) c naps
     = c + (\<Sum>nap \<leftarrow> filter (napContains lit hour) naps. reliability nap * (8/10))"
  by (induction naps arbitrary: c) (simp_all add: napStep_def napContains_def)

lemma foldl_fussyStep:
  "foldl (fussyStep lit hour) c fs
     = c + (\<Sum>fussy \<leftarrow> filter (fussyContains lit hour) fs. intensity fussy * (6/10))"
  by (induction fs arbitrary: c) (simp_all add: fussyStep_def fussyContains_def)

lemma conflict_eq: "getBabyScheduleConflict lit bs hour = min 1 (conflictSum lit bs hour)"
  by (simp add: getBabyScheduleConflict_def conflictSum_def foldl_napStep foldl_fussyStep Let_def min.commute)

lemma nap_sum_nonneg:
  "\<forall>nap \<in> set naps. 0 \<le> reliability nap \<Longrightarrow>
     0 \<le> (\<Sum>nap \<leftarrow> filter P naps. reliability nap * (8/10))"
  by (rule sum_list_nonneg) auto

lemma fussy_sum_nonneg:
  "\<forall>fussy \<in> set fs. 0 \<le> intensity fussy \<Longrightarrow>
     0 \<le> (\<Sum>fussy \<leftarrow> filter P fs. intensity fussy * (6/10))"
  by (rule sum_list_nonneg) auto

lemma conflictSum_nonneg:
  assumes "\<forall>nap \<in> set (napTimes bs). 0 \<le> reliability nap"
      and "\<forall>fussy \<in> set (fussyPeriods bs). 0 \<le> intensity fussy"
  shows "0 \<le> conflictSum lit bs hour"
  using nap_sum_nonneg [OF assms(1), of "napContains lit hour"]
        fussy_sum_nonneg [OF assms(2), of "fussyContains lit hour"]
  by (simp add: conflictSum_def)

text \<open>
  Claim C4. For a schedule whose nap reliabilities and fussy intensities lie between 0
  and 1, \<open>getBabyScheduleConflict\<close> is the minimum of 1 and the sum, over the naps whose
  window contains the hour, of reliability times 0.8, plus the sum, over the fussy periods
  containing the hour, of intensity times 0.6, plus 0.2 when the hour is a feeding hour;
  and the result lies between 0 and 1.
\<close>

theorem conflict_formula:
  assumes "\<forall>nap \<in> set (napTimes bs). 0 \<le> reliability nap \<and> reliability nap \<le> 1"
      and "\<forall>fussy \<in> set (fussyPeriods bs). 0 \<le> intensity fussy \<and> intensity fussy \<le> 1"
  shows "getBabyScheduleConflict lit bs hour = min 1 (conflictSum lit bs hour)
       \<and> 0 \<le> getBabyScheduleConflict lit bs hour
       \<and> getBabyScheduleConflict lit bs hour \<le> 1"
proof -
  have "0 \<le> conflictSum lit bs hour"
    using assms by (intro conflictSum_nonneg) auto
  then show ?thesis by (simp add: conflict_eq)
qed

text \<open>The default schedule at 14:00, and at 18:00 with a feeding added, where the cap applies.\<close>

theorem conflict_formula_witness:
  "getBabyScheduleConflict noOtherLiterals (defaultSchedule\<lparr>feedingTimes := [18]\<rparr>) 18 = 1
   \<and> conflictSum noOtherLiterals (defaultSchedule\<lparr>feedingTimes := [18]\<rparr>) 18 = 29/25
   \<and> getBabyScheduleConflict noOtherLiterals defaultSchedule 14 = 18/25"
proof -
  have h1: "\<forall>nap \<in> set (napTimes (defaultSchedule\<lparr>feedingTimes := [18]\<rparr>)).
              0 \<le> reliability nap \<and> reliability nap \<le> 1"
    by (simp add: defaultSchedule_def)
  have h2: "\<forall>fussy \<in> set (fussyPeriods (defaultSchedule\<lparr>feedingTimes := [18]\<rparr>)).
              0 \<le> intensity fussy \<and> intensity fussy \<le> 1"
    by (simp add: defaultSchedule_def)
  have h3: "\<forall>nap \<in> set (napTimes defaultSchedule). 0 \<le> reliability nap \<and> reliability nap \<le> 1"
    by (simp add: defaultSchedule_def)
  have h4: "\<forall>fussy \<in> set (fussyPeriods defaultSchedule). 0 \<le> intensity fussy \<and> intensity fussy \<le> 1"
    by (simp add: defaultSchedule_def)
  have s1: "conflictSum noOtherLiterals (defaultSchedule\<lparr>feedingTimes := [18]\<rparr>) 18 = 29/25"
    by (simp add: conflictSum_def napContains_def fussyContains_def defaultSchedule_def
        isHourInRange_def js_ge_def eval_parse)
  have s2: "conflictSum noOtherLiterals defaultSchedule 14 = 18/25"
    by (simp add: conflictSum_def napContains_def fussyContains_def defaultSchedule_def
        isHourInRange_def js_ge_def eval_parse)
  show ?thesis
    using conflict_formula [OF h1 h2, of noOtherLiterals 18]
          conflict_formula [OF h3 h4, of noOtherLiterals 14] s1 s2
    by simp
qed

subsection \<open>C1: critical alerts\<close>

lemma schedule_critical:
  "scheduleRecallNotification lit deliver svc now recall Critical message hazard
     = Some (sendNotification deliver
         (storePending svc (recallNotification now recall Critical message hazard now (criticalTiming now)))
         (recallNotification now recall Critical message hazard now (criticalTiming now)))"
  by (simp add: scheduleRecallNotification_def calculateOptimalDeliveryTime_def Let_def
      criticalTiming_def storePending_def)

lemma schedule_immediate_high:
  assumes "high_enabled (preferences svc)" "high_schedule (preferences svc) = Immediate"
      and "\<not> isInQuietHours lit (preferences svc) now"
  shows "scheduleRecallNotification lit deliver svc now recall High message hazard
     = Some (sendNotification deliver
         (storePending svc (recallNotification now recall High message hazard now (immediateTiming now)))
         (recallNotification now recall High message hazard now (immediateTiming now)))"
  using assms
  by (simp add: scheduleRecallNotification_def calculateOptimalDeliveryTime_def Let_def
      immediateTiming_def storePending_def)

lemma send_after_store:
  "sendNotification deliver (storePending svc n) n
     = (deliver n, (storePending svc n)\<lparr>sendLog := sendLog svc @ [(n, deliver n)]\<rparr>)"
  by (simp add: sendNotification_def storePending_def)

lemma cancel_after_immediate:
  "fst (cancelNotification (snd (sendNotification deliver (storePending svc n) n)) (notif_id n))"
  by (simp add: sendNotification_def storePending_def cancelNotification_def)

text \<open>
  Claim C1 as stated fails for \<open>sendCriticalRecallAlert\<close>: the notification it sends
  carries no confidence.
\<close>

theorem critical_alert_confidence_counterexample:
  "sendLog (snd (sendCriticalRecallAlert transportAccepts (newService 0) 0 ''r1'' ''crib'' ''entrapment'' ''msg''))
     = [(criticalAlert 0 ''r1'' ''crib'' ''entrapment'' ''msg'', True)]
   \<and> notif_confidence (criticalAlert 0 ''r1'' ''crib'' ''entrapment'' ''msg'') \<noteq> Some 1"
  by (simp add: sendCriticalRecallAlert_def sendNotification_def newService_def transportAccepts_def
      criticalAlert_def)

text \<open>
  Claim C1, amended. Whatever the preferences, scheduling with critical urgency hands the
  transport, in the same call, a notification scheduled for now with confidence 1 and
  priority 10, and registers no timer; \<open>sendCriticalRecallAlert\<close> hands the transport a
  critical notification scheduled for now with priority 10 and no confidence attached.
\<close>

theorem critical_bypass:
  "(\<exists>n svc'. scheduleRecallNotification lit deliver svc now recall Critical message hazard
                = Some (deliver n, svc')
        \<and> ntype n = Critical \<and> scheduledFor n = now \<and> notif_confidence n = Some 1
        \<and> priority n = 10
        \<and> sendLog svc' = sendLog svc @ [(n, deliver n)] \<and> timers svc' = timers svc)
   \<and> (\<exists>n. sendCriticalRecallAlert deliver svc now recall productName hazard message
                = (deliver n, svc\<lparr>sendLog := sendLog svc @ [(n, deliver n)]\<rparr>)
        \<and> ntype n = Critical \<and> scheduledFor n = now \<and> priority n = 10
        \<and> notif_confidence n = None)"
proof -
  let ?n = "recallNotification now recall Critical message hazard now (criticalTiming now)"
  have "scheduleRecallNotification lit deliver svc now recall Critical message hazard
          = Some (deliver ?n, (storePending svc ?n)\<lparr>sendLog := sendLog svc @ [(?n, deliver ?n)]\<rparr>)"
    by (simp only: schedule_critical send_after_store)
  moreover have "ntype ?n = Critical \<and> scheduledFor ?n = now \<and> notif_confidence ?n = Some 1
        \<and> priority ?n = 10"
    by (simp add: recallNotification_def criticalTiming_def)
  ultimately have 1: "\<exists>n svc'. scheduleRecallNotification lit deliver svc now recall Critical message hazard
                = Some (deliver n, svc')
        \<and> ntype n = Critical \<and> scheduledFor n = now \<and> notif_confidence n = Some 1
        \<and> priority n = 10
        \<and> sendLog svc' = sendLog svc @ [(n, deliver n)] \<and> timers svc' = timers svc"
    by (intro exI [of _ ?n] exI [of _ "(storePending svc ?n)\<lparr>sendLog := sendLog svc @ [(?n, deliver ?n)]\<rparr>"])
       (simp add: storePending_def)
  have 2: "\<exists>n. sendCriticalRecallAlert deliver svc now recall productName hazard message
                = (deliver n, svc\<lparr>sendLog := sendLog svc @ [(n, deliver n)]\<rparr>)
        \<and> ntype n = Critical \<and> scheduledFor n = now \<and> priority n = 10
        \<and> notif_confidence n = None"
    unfolding sendCriticalRecallAlert_def sendNotification_def
    by (intro exI [of _ "criticalAlert now recall productName hazard message"])
       (simp add: criticalAlert_def)
  show ?thesis using 1 2 by blast
qed

text \<open>With the high and medium tiers switched off, a critical recall is still sent.\<close>

theorem critical_bypass_witness:
  "fst (the (scheduleRecallNotification noOtherLiterals transportAccepts
          ((newService 0)\<lparr>preferences := allDisabled\<rparr>) 0 ''r1'' Critical ''msg'' ''entrapment''))
   \<and> length (sendLog (snd (the (scheduleRecallNotification noOtherLiterals transportAccepts
          ((newService 0)\<lparr>preferences := allDisabled\<rparr>) 0 ''r1'' Critical ''msg'' ''entrapment'')))) = 1"
proof -
  obtain n svc' where
    "scheduleRecallNotification noOtherLiterals transportAccepts
        ((newService 0)\<lparr>preferences := allDisabled\<rparr>) 0 ''r1'' Critical ''msg'' ''entrapment''
       = Some (transportAccepts n, svc')"
    "sendLog svc' = sendLog ((newService 0)\<lparr>preferences := allDisabled\<rparr>) @ [(n, transportAccepts n)]"
    using critical_bypass [where lit = noOtherLiterals and deliver = transportAccepts
        and svc = "(newService 0)\<lparr>preferences := allDisabled\<rparr>" and now = 0
        and recall = "''r1''" and message = "''msg''" and hazard = "''entrapment''"]
    by blast
  then show ?thesis by (simp add: transportAccepts_def newService_def)
qed

subsection \<open>C7: sent notifications and the pending map\<close>

text \<open>The callback of a held notification removes it, and a later cancellation answers false.\<close>

lemma callback_removes:
  "scheduledNotifications (timerCallback lit deliver svc now n) (notif_id n) = None"
  by (simp add: timerCallback_def sendNotification_def Let_def)

lemma cancel_after_callback:
  "fst (cancelNotification (timerCallback lit deliver svc now n) (notif_id n)) = False"
  by (simp add: cancelNotification_def callback_removes)

lemma callback_keeps_behavior:
  "smartTiming (timerCallback lit deliver svc now n) = smartTiming svc"
  by (simp add: timerCallback_def sendNotification_def Let_def)

lemma default_not_quiet_1500: "\<not> isInQuietHours lit defaultPreferences (at_clock day 15 0)"
proof -
  have "overnightPrefs defaultPreferences = defaultPreferences"
    by (simp add: overnightPrefs_def defaultPreferences_def)
  then show ?thesis
    using quiet_overnight [of lit defaultPreferences "at_clock day 15 0"]
    by (simp add: getHours_at_clock getMinutes_at_clock)
qed

lemma show_54000000: "show_int (at_clock 0 15 0) = ''54000000''"
  by (simp add: show_int_def toString_def digits.simps at_clock_def msPerHour_def digit_char_def)

text \<open>
  Claim C7 fails on the immediate path. With the default preferences a high-urgency
  recall scheduled at 15:00 is sent in the same call and no timer is registered, yet its
  record stays in the pending map: cancelling it afterwards answers true.
\<close>

theorem sent_now_still_pending:
  "(case scheduleRecallNotification noOtherLiterals transportAccepts (newService 0) (at_clock 0 15 0)
           ''r3'' High ''msg'' ''hazard'' of
      None \<Rightarrow> False
    | Some (sent, svc') \<Rightarrow>
        sent \<and> map (\<lambda>(n, ok). (notif_id n, ok)) (sendLog svc') = [(''recall-r3-54000000'', True)]
        \<and> timers svc' = []
        \<and> fst (cancelNotification svc' ''recall-r3-54000000''))"
proof -
  let ?n = "recallNotification (at_clock 0 15 0) ''r3'' High ''msg'' ''hazard''
              (at_clock 0 15 0) (immediateTiming (at_clock 0 15 0))"
  have p: "high_enabled (preferences (newService 0))"
          "high_schedule (preferences (newService 0)) = Immediate"
          "\<not> isInQuietHours noOtherLiterals (preferences (newService 0)) (at_clock 0 15 0)"
    using default_not_quiet_1500 [of noOtherLiterals 0]
    by (simp_all add: newService_def defaultPreferences_def)
  have i: "notif_id ?n = ''recall-r3-54000000''"
    by (simp add: recallNotification_def show_54000000)
  have e: "scheduleRecallNotification noOtherLiterals transportAccepts (newService 0) (at_clock 0 15 0)
             ''r3'' High ''msg'' ''hazard''
           = Some (transportAccepts ?n,
                   (storePending (newService 0) ?n)\<lparr>sendLog := sendLog (newService 0) @ [(?n, transportAccepts ?n)]\<rparr>)"
    by (simp only: schedule_immediate_high [OF p] send_after_store)
  show ?thesis
    unfolding e
    by (simp add: i transportAccepts_def storePending_def cancelNotification_def newService_def)
qed

subsection \<open>C10: interactions with a notification that is no longer pending\<close>

text \<open>
  Claim C10. For an id that is not in the pending map \<open>recordNotificationInteraction\<close>
  leaves the whole service as it is, response rates, response times and pending map
  included; this is the case for the id of a held notification once its callback has run.
\<close>

theorem interaction_after_fire_noop:
  "(scheduledNotifications svc nid = None \<longrightarrow> recordNotificationInteraction svc now nid action = svc)
   \<and> recordNotificationInteraction (timerCallback lit deliver svc fired n) now (notif_id n) action
       = timerCallback lit deliver svc fired n"
  by (simp add: recordNotificationInteraction_def callback_removes)

text \<open>
  Scheduling a medium-urgency recall on the default service on Thursday 09:00: the engine
  picks 07:00, finds it in the quiet hours and moves to Friday 08:00; the notification is
  held.
\<close>

lemma medium_thursday_timing:
  "calculateOptimalDeliveryTime noOtherLiterals (newService 0) (at_clock 0 9 0) Medium
     = \<lparr>d_time = Some (at_clock 1 8 0), d_reasoning = ''Proposed time conflicts with quiet hours'',
        d_confidence = 9/10\<rparr>"
  by code_simp

lemma schedule_medium_thursday:
  "scheduleRecallNotification noOtherLiterals deliver (newService 0) (at_clock 0 9 0)
      ''r2'' Medium ''msg'' ''hazard'' = Some (True, heldService)"
proof -
  have lt: "\<not> at_clock 1 8 0 \<le> at_clock 0 9 0"
    by (simp add: at_clock_def msPerDay_def msPerHour_def)
  have m: "medium_enabled (preferences (newService 0))"
    by (simp add: newService_def defaultPreferences_def)
  have t: "timers (newService 0) = []"
    by (simp add: newService_def)
  show ?thesis
    unfolding scheduleRecallNotification_def medium_thursday_timing Let_def
    using lt m t
    by (simp add: heldService_def heldNotification_def storePending_def)
qed

lemma held_before:
  "responseRates (userBehavior (smartTiming
      (recordNotificationInteraction heldService (at_clock 1 8 5) (notif_id heldNotification) Acted))) 8
    = Some (23/25)"
proof -
  have "scheduledFor heldNotification = at_clock 1 8 0"
    by (simp add: heldNotification_def recallNotification_def)
  then show ?thesis
    by (simp add: recordNotificationInteraction_def heldService_def storePending_def
        recordNotificationResponse_def getHours_at_clock Let_def newService_def defaultTiming_def
        defaultBehavior_def responseRate_def or_default_def)
qed

text \<open>
  The held notification due Friday 08:00: a response before the callback moves the rate
  of hour 8 from 0.9 to 0.92, the same response after the callback leaves it at 0.9.
\<close>

theorem interaction_after_fire_noop_witness:
  "responseRates (userBehavior (smartTiming
      (recordNotificationInteraction
         (timerCallback noOtherLiterals transportAccepts heldService (at_clock 1 8 0) heldNotification)
         (at_clock 1 8 5) (notif_id heldNotification) Acted))) 8
    = Some (9/10)
   \<and> responseRates (userBehavior (smartTiming
      (recordNotificationInteraction heldService (at_clock 1 8 5) (notif_id heldNotification) Acted))) 8
    = Some (23/25)
   \<and> scheduledNotifications heldService (notif_id heldNotification) = Some heldNotification"
proof -
  have "responseRates (userBehavior (smartTiming heldService)) 8 = Some (9/10)"
    by (simp add: heldService_def storePending_def newService_def defaultTiming_def defaultBehavior_def)
  then show ?thesis
    using interaction_after_fire_noop [of heldService "notif_id heldNotification" "at_clock 1 8 5" Acted
        noOtherLiterals transportAccepts "at_clock 1 8 0" heldNotification]
      held_before
    by (simp add: callback_keeps_behavior heldService_def storePending_def)
qed

subsection \<open>C9: recording app usage\<close>

lemma set_sort_insert: "set (sort_insert x ys) = insert x (set ys)"
  by (induction ys) auto

lemma set_js_sort: "set (js_sort xs) = set xs"
  by (induction xs) (simp_all add: js_sort_def set_sort_insert)

text \<open>
  What holds of \<open>recordAppUsage\<close>: both lists contain the hour afterwards and keep what
  they had, and the last active time is the timestamp.
\<close>

lemma recordAppUsage_keeps:
  "getHours timestamp \<in> set (appUsageHours (recordAppUsage ub timestamp))
   \<and> set (appUsageHours ub) \<subseteq> set (appUsageHours (recordAppUsage ub timestamp))
   \<and> (\<exists>hours. weeklyPattern (recordAppUsage ub timestamp) (getDayName (getDay timestamp)) = Some hours
         \<and> getHours timestamp \<in> set hours
         \<and> (case weeklyPattern ub (getDayName (getDay timestamp)) of
               None \<Rightarrow> True | Some before \<Rightarrow> set before \<subseteq> set hours))
   \<and> lastActiveTime (recordAppUsage ub timestamp) = timestamp"
  by (auto simp: recordAppUsage_def Let_def set_js_sort split: option.splits)

lemma toString_small:
  "toString 7 = ''7''" "toString 8 = ''8''" "toString 9 = ''9''" "toString 10 = ''10''"
  "toString 12 = ''12''" "toString 15 = ''15''" "toString 19 = ''19''" "toString 21 = ''21''"
  by (simp_all add: toString_def digits.simps digit_char_def)

lemma thursday_0: "getDayName (getDay (at_clock 0 h m)) = ''thursday''" if "h < 24" "m < 60"
proof -
  have "at_clock 0 h m div msPerDay = 0"
    using that by (simp add: at_clock_def msPerDay_def msPerHour_def div_pos_pos_trivial)
  then show ?thesis by (simp add: getDay_def getDayName_def)
qed

text \<open>
  Claim C9 fails in its ordering part. \<open>sort()\<close> without a comparison function orders the
  hours by their decimal strings: recording 09:00 on a Thursday on the default profile
  leaves the active hours as 12, 15, 19, 21, 7, 8, 9 and the Thursday pattern as
  12, 15, 19, 7, 9, neither in ascending numeric order.
\<close>

theorem lexicographic_sort_example:
  "appUsageHours (recordAppUsage (defaultBehavior 0) (at_clock 0 9 0)) = [12, 15, 19, 21, 7, 8, 9]
   \<and> weeklyPattern (recordAppUsage (defaultBehavior 0) (at_clock 0 9 0)) ''thursday''
       = Some [12, 15, 19, 7, 9]
   \<and> \<not> sorted (appUsageHours (recordAppUsage (defaultBehavior 0) (at_clock 0 9 0)))"
proof -
  have h: "getHours (at_clock 0 9 0) = 9" by (simp add: getHours_at_clock)
  have d: "getDayName (getDay (at_clock 0 9 0)) = ''thursday''" by (simp add: thursday_0)
  have a: "js_sort [7, 8, 12, 15, 19, 21, 9] = [12, 15, 19, 21, 7, 8, 9]"
    by (simp add: js_sort_def toString_small)
  have b: "js_sort [7, 12, 15, 19, 9] = [12, 15, 19, 7, 9]"
    by (simp add: js_sort_def toString_small)
  show ?thesis
    by (simp add: recordAppUsage_def Let_def h d defaultBehavior_def a b)
qed

subsection \<open>C3: the optimal hour\<close>

text \<open>
  Where the claim holds. Outside the branch for urgent notices, for a candidate list
  that is not empty and does not hold hour 0, the result is a candidate of the highest
  score; in the branch for urgent notices, for a candidate list in ascending order that
  holds the current hour, the result is the current hour, the earliest candidate of the
  window.
\<close>

lemma hd_sort_key_min:
  fixes f :: "'a \<Rightarrow> rat"
  assumes "xs \<noteq> []"
  shows "hd (sort_key f xs) \<in> set xs \<and> (\<forall>y \<in> set xs. f (hd (sort_key f xs)) \<le> f y)"
proof -
  obtain z zs where z: "sort_key f xs = z # zs"
    using assms by (cases "sort_key f xs") (auto dest: arg_cong [where f = length])
  have "sorted (map f (z # zs))" using sorted_sort_key [of f xs] z by simp
  then have "\<forall>y \<in> set (z # zs). f z \<le> f y" by auto
  moreover have "set (z # zs) = set xs" using set_sort [of f xs] z by simp
  ultimately show ?thesis using z by auto
qed

lemma sortedHours_best:
  assumes "pattern \<noteq> []"
  shows "\<exists>best rest. sortedHours lit st u ct pattern = best # rest \<and> best \<in> set pattern
           \<and> (\<forall>h \<in> set pattern. hourScore lit st u ct h \<le> hourScore lit st u ct best)"
proof -
  let ?es = "map (\<lambda>hour. (hour, hourScore lit st u ct hour)) (sort (remdups pattern))"
  have "set (sort (remdups pattern)) = set pattern" by simp
  then have "sort (remdups pattern) \<noteq> []" using assms by (metis set_empty)
  then have ne: "?es \<noteq> []" by simp
  let ?b = "hd (sort_key (\<lambda>e. - snd e) ?es)"
  from hd_sort_key_min [OF ne, of "\<lambda>e. - snd e"]
  have b: "?b \<in> set ?es" "\<forall>y \<in> set ?es. - snd ?b \<le> - snd y" by auto
  have sb: "snd ?b = hourScore lit st u ct (fst ?b)" "fst ?b \<in> set pattern"
    using b(1) by auto
  have "\<forall>h \<in> set pattern. hourScore lit st u ct h \<le> snd ?b"
  proof
    fix h assume "h \<in> set pattern"
    then have "(h, hourScore lit st u ct h) \<in> set ?es" by auto
    then show "hourScore lit st u ct h \<le> snd ?b" using b(2) by fastforce
  qed
  moreover have "sort_key (\<lambda>e. - snd e) ?es \<noteq> []"
    using ne by (auto dest: arg_cong [where f = length])
  ultimately show ?thesis
    using sb by (cases "sort_key (\<lambda>e. - snd e) ?es") (auto simp: sortedHours_def)
qed

lemma optimal_hour_is_best:
  assumes "\<not> (u = High \<and> getHours now \<in> set (todayPattern (userBehavior st) now))"
      and "todayPattern (userBehavior st) now \<noteq> []"
      and "0 \<notin> set (todayPattern (userBehavior st) now)"
  shows "calculateOptimalHour lit st now u ct \<in> set (todayPattern (userBehavior st) now)
       \<and> (\<forall>h \<in> set (todayPattern (userBehavior st) now).
             hourScore lit st u ct h \<le> hourScore lit st u ct (calculateOptimalHour lit st now u ct))"
proof -
  obtain best rest where b:
    "sortedHours lit st u ct (todayPattern (userBehavior st) now) = best # rest"
    "best \<in> set (todayPattern (userBehavior st) now)"
    "\<forall>h \<in> set (todayPattern (userBehavior st) now). hourScore lit st u ct h \<le> hourScore lit st u ct best"
    using sortedHours_best [OF assms(2)] by blast
  have "best \<noteq> 0" using b(2) assms(3) by (cases "best = 0") simp_all
  then have "calculateOptimalHour lit st now u ct = best"
    using assms(1) b(1) by (auto simp: calculateOptimalHour_def Let_def)
  then show ?thesis using b by simp
qed

lemma hd_filter_sorted:
  assumes "sorted xs" "c \<in> set xs"
  shows "hd (filter (\<lambda>h. h \<ge> c \<and> h \<le> c + (3::nat)) xs) = c"
  using assms
proof (induction xs)
  case Nil
  then show ?case by simp
next
  case (Cons a xs)
  show ?case
  proof (cases "a = c")
    case True
    then show ?thesis by simp
  next
    case False
    then have "c \<in> set xs" using Cons.prems by auto
    moreover have "a \<le> c" using Cons.prems \<open>c \<in> set xs\<close> by auto
    ultimately show ?thesis using Cons False by auto
  qed
qed

lemma optimal_hour_sooner:
  assumes "sorted (todayPattern (userBehavior st) now)"
      and "getHours now \<in> set (todayPattern (userBehavior st) now)"
  shows "calculateOptimalHour lit st now High ct = getHours now"
proof -
  have "filter (\<lambda>h. h \<ge> getHours now \<and> h \<le> getHours now + 3) (todayPattern (userBehavior st) now) \<noteq> []"
    using assms(2) by (auto simp: filter_empty_conv)
  then show ?thesis
    using assms hd_filter_sorted [OF assms]
    by (simp add: calculateOptimalHour_def Let_def)
qed

text \<open>
  With a candidate list out of ascending order, as \<open>recordAppUsage\<close> leaves it, the branch
  for urgent notices returns the first candidate of the window in list order: at 09:30,
  with 9 a candidate, it returns 10.
\<close>

lemma usedTwice_pattern:
  "todayPattern (userBehavior usedTwice) (at_clock 0 9 30) = [10, 12, 15, 19, 7, 9]"
proof -
  have h: "getHours (at_clock 0 9 0) = 9" "getHours (at_clock 0 10 0) = 10"
    by (simp_all add: getHours_at_clock)
  have d: "getDayName (getDay (at_clock 0 9 0)) = ''thursday''"
          "getDayName (getDay (at_clock 0 10 0)) = ''thursday''"
          "getDayName (getDay (at_clock 0 9 30)) = ''thursday''"
    by (simp_all add: thursday_0)
  have b: "js_sort [7, 12, 15, 19, 9] = [12, 15, 19, 7, 9]"
          "js_sort [12, 15, 19, 7, 9, 10] = [10, 12, 15, 19, 7, 9]"
    by (simp_all add: js_sort_def toString_small)
  show ?thesis
    by (simp add: usedTwice_def todayPattern_def recordAppUsage_def Let_def h d defaultBehavior_def b)
qed

lemma later_hour_preferred:
  "calculateOptimalHour lit usedTwice (at_clock 0 9 30) High ct = 10"
  by (simp add: calculateOptimalHour_def Let_def usedTwice_pattern getHours_at_clock)

lemma default_conflict_0: "getBabyScheduleConflict lit defaultSchedule 0 = 0"
  by (simp add: getBabyScheduleConflict_def napStep_def fussyStep_def defaultSchedule_def
      isHourInRange_def js_ge_def parseTime_def time_fields_def split_colon_def
      Number_js_def is_digit_def digit_of_def dec_value_def)

lemma default_conflict_12: "getBabyScheduleConflict lit defaultSchedule 12 = 0"
  by (simp add: getBabyScheduleConflict_def napStep_def fussyStep_def defaultSchedule_def
      isHourInRange_def js_ge_def parseTime_def time_fields_def split_colon_def
      Number_js_def is_digit_def digit_of_def dec_value_def)

lemma midnight_scores:
  "hourScore lit midnightTiming Medium Recall 0 = 74"
  "hourScore lit midnightTiming Medium Recall 12 = 40"
  by (simp_all add: hourScore_def midnightTiming_def defaultTiming_def defaultBehavior_def
      responseRate_def avgResponseTime_def or_default_def default_conflict_0 default_conflict_12
      getDay_def msPerDay_def)

lemma midnight_pattern: "todayPattern (userBehavior midnightTiming) (at_clock 0 10 0) = [0, 12]"
  by (simp add: todayPattern_def thursday_0 midnightTiming_def)

text \<open>
  Claim C3 fails when the highest-scoring hour is 0. \<open>sortedHours[0] || currentHour\<close>
  takes hour 0 for a missing value: with the Thursday candidates 0 and 12 scoring 74 and
  40, a medium-urgency request at 10:00 gets hour 10, which is not a candidate.
\<close>

theorem midnight_best_hour_lost:
  "todayPattern (userBehavior midnightTiming) (at_clock 0 10 0) = [0, 12]
   \<and> hourScore noOtherLiterals midnightTiming Medium Recall 0 = 74
   \<and> hourScore noOtherLiterals midnightTiming Medium Recall 12 = 40
   \<and> calculateOptimalHour noOtherLiterals midnightTiming (at_clock 0 10 0) Medium Recall = 10"
proof -
  have s: "sortedHours noOtherLiterals midnightTiming Medium Recall [0, 12] = [0, 12]"
    by (simp add: sortedHours_def midnight_scores)
  have "calculateOptimalHour noOtherLiterals midnightTiming (at_clock 0 10 0) Medium Recall = 10"
    by (simp add: calculateOptimalHour_def Let_def midnight_pattern s getHours_at_clock)
  then show ?thesis by (simp add: midnight_pattern midnight_scores)
qed

subsection \<open>C5: the delay arbiter\<close>

lemma parse_1300: "parseTime lit ''13:00'' = Num 13"
  using parseTime_hhmm [of 13 0 lit] by (simp add: hhmm_def digit_char_def)

lemma parse_1500: "parseTime lit ''15:00'' = Num 15"
  using parseTime_hhmm [of 15 0 lit] by (simp add: hhmm_def digit_char_def)

text \<open>
  Where the claim holds. Unless the rate stored for the proposed hour is 0, the decision
  of \<open>shouldDelayNotification\<close> and its confidence are those of the ordered rule list.
\<close>

lemma rate_as_stored:
  "responseRates ub hour \<noteq> Some 0 \<Longrightarrow> responseRate ub hour = storedRate ub hour"
  by (auto simp: responseRate_def storedRate_def or_default_def split: option.splits)

lemma delay_agrees_with_rule:
  assumes "responseRates (userBehavior st) (getHours t) \<noteq> Some 0"
  shows "(shouldDelay (shouldDelayNotification lit st now t u),
          delay_confidence (shouldDelayNotification lit st now t u)) = delayRule lit st now t u"
  using rate_as_stored [OF assms]
  by (simp add: shouldDelayNotification_def delayRule_def Let_def list_ex_iff msPerHour_def
      conflict_eq)

text \<open>
  The scenario of the claim holds: with the nap from 13:00 to 15:00 of reliability 0.9 in
  a schedule of non-negative weights, the conflict at hour 14 is at least 0.72 and a
  medium-urgency request for that hour is delayed.
\<close>

lemma member_sum_le:
  fixes f :: "'a \<Rightarrow> rat"
  assumes "x \<in> set xs" "P x" "\<forall>y \<in> set xs. 0 \<le> f y"
  shows "f x \<le> (\<Sum>y \<leftarrow> filter P xs. f y)"
  using assms
proof (induction xs)
  case Nil
  then show ?case by simp
next
  case (Cons a xs)
  have nn: "0 \<le> (\<Sum>y \<leftarrow> filter P xs. f y)"
    by (rule sum_list_nonneg) (use Cons.prems in auto)
  show ?case
  proof (cases "x = a")
    case True
    then show ?thesis using Cons.prems nn by simp
  next
    case False
    then have "f x \<le> (\<Sum>y \<leftarrow> filter P xs. f y)" using Cons by auto
    then show ?thesis using Cons.prems by (auto intro: add_increasing)
  qed
qed

lemma afternoonNap_contains_14: "napContains lit 14 afternoonNap"
  by (simp add: napContains_def afternoonNap_def parse_1300 parse_1500 isHourInRange_def js_ge_def)

lemma nap_scenario_conflict:
  assumes "afternoonNap \<in> set (napTimes bs)"
      and "\<forall>nap \<in> set (napTimes bs). 0 \<le> reliability nap"
      and "\<forall>fussy \<in> set (fussyPeriods bs). 0 \<le> intensity fussy"
  shows "72/100 \<le> getBabyScheduleConflict lit bs 14"
proof -
  have "reliability afternoonNap * (8/10)
          \<le> (\<Sum>nap \<leftarrow> filter (napContains lit 14) (napTimes bs). reliability nap * (8/10))"
    using assms(1) afternoonNap_contains_14 assms(2)
    by (intro member_sum_le [where f = "\<lambda>nap. reliability nap * (8/10)"]) auto
  moreover have "0 \<le> (\<Sum>fussy \<leftarrow> filter (fussyContains lit 14) (fussyPeriods bs). intensity fussy * (6/10))"
    using assms(3) by (rule fussy_sum_nonneg)
  ultimately have "72/100 \<le> conflictSum lit bs 14"
    by (simp add: conflictSum_def afternoonNap_def)
  then show ?thesis by (simp add: conflict_eq)
qed

lemma nap_scenario_delayed:
  assumes "afternoonNap \<in> set (napTimes (babySchedule st))"
      and "\<forall>nap \<in> set (napTimes (babySchedule st)). 0 \<le> reliability nap"
      and "\<forall>fussy \<in> set (fussyPeriods (babySchedule st)). 0 \<le> intensity fussy"
      and "getHours t = 14"
  shows "shouldDelay (shouldDelayNotification lit st now t Medium)"
  using nap_scenario_conflict [OF assms(1-3), of lit] assms(4)
  by (simp add: shouldDelayNotification_def Let_def)

lemma default_conflict_14: "getBabyScheduleConflict lit defaultSchedule 14 = 18/25"
  by (simp add: getBabyScheduleConflict_def napStep_def fussyStep_def defaultSchedule_def
      isHourInRange_def js_ge_def parseTime_def time_fields_def split_colon_def
      Number_js_def is_digit_def digit_of_def dec_value_def)

lemma nap_scenario_example:
  "shouldDelayNotification lit napOnlyTiming (at_clock 0 9 0) (at_clock 0 14 0) Medium
     = \<lparr>shouldDelay = True, reason = ''Baby is likely sleeping or in a fussy period'',
        delay_confidence = 18/25\<rparr>"
  by (simp add: shouldDelayNotification_def Let_def getHours_at_clock napOnlyTiming_def
      defaultTiming_def default_conflict_14)

lemma default_conflict_16: "getBabyScheduleConflict lit defaultSchedule 16 = 2/10"
  by (simp add: getBabyScheduleConflict_def napStep_def fussyStep_def defaultSchedule_def
      isHourInRange_def js_ge_def parseTime_def time_fields_def split_colon_def
      Number_js_def is_digit_def digit_of_def dec_value_def)

lemma default_not_quiet_16:
  "\<not> list_ex (isTimeInQuietPeriod lit (at_clock 0 16 0)) (quietPeriods (defaultBehavior 0))"
  by (simp add: defaultBehavior_def isTimeInQuietPeriod_def getHours_at_clock getMinutes_at_clock
      isHourInRange_def js_ge_def parseTime_def time_fields_def split_colon_def
      Number_js_def is_digit_def digit_of_def dec_value_def)

text \<open>
  Claim C5 fails on a stored response rate of 0. For a medium-urgency request at 16:00,
  outside the quiet periods and with a conflict of 0.2, the rule list delays with
  confidence 1 (the rate 0 is below 0.3); \<open>responseRates[hour] || 0.5\<close> reads the stored 0
  as a missing value, so the code takes the rate for 0.5 and does not delay. With a
  stored rate of 0.2 the code delays with confidence 0.8, as the rule list says.
\<close>

theorem stored_zero_rate_not_delayed:
  "responseRates (userBehavior zeroRateTiming) 16 = Some 0
   \<and> delayRule noOtherLiterals zeroRateTiming (at_clock 0 9 0) (at_clock 0 16 0) Medium = (True, 1)
   \<and> shouldDelayNotification noOtherLiterals zeroRateTiming (at_clock 0 9 0) (at_clock 0 16 0) Medium
       = \<lparr>shouldDelay = False, reason = [], delay_confidence = 8/10\<rparr>
   \<and> responseRates (userBehavior lowRateTiming) 16 = Some (2/10)
   \<and> delayRule noOtherLiterals lowRateTiming (at_clock 0 9 0) (at_clock 0 16 0) Medium = (True, 8/10)
   \<and> shouldDelayNotification noOtherLiterals lowRateTiming (at_clock 0 9 0) (at_clock 0 16 0) Medium
       = \<lparr>shouldDelay = True, reason = ''User historically unresponsive at this time'',
          delay_confidence = 8/10\<rparr>"
proof -
  have h: "getHours (at_clock 0 16 0) = 16" by (simp add: getHours_at_clock)
  have q: "\<not> list_ex (isTimeInQuietPeriod noOtherLiterals (at_clock 0 16 0)) (quietPeriods (defaultBehavior 0))"
    by (rule default_not_quiet_16)
  have c: "min 1 (conflictSum noOtherLiterals defaultSchedule 16) = 2/10"
    using default_conflict_16 [of noOtherLiterals] by (simp add: conflict_eq)
  have z1: "delayRule noOtherLiterals zeroRateTiming (at_clock 0 9 0) (at_clock 0 16 0) Medium = (True, 1)"
    using q c by (simp add: delayRule_def Let_def h zeroRateTiming_def defaultTiming_def
        storedRate_def list_ex_iff)
  have z2: "shouldDelayNotification noOtherLiterals zeroRateTiming (at_clock 0 9 0) (at_clock 0 16 0) Medium
       = \<lparr>shouldDelay = False, reason = [], delay_confidence = 8/10\<rparr>"
    using q by (simp add: shouldDelayNotification_def Let_def h zeroRateTiming_def defaultTiming_def
        default_conflict_16 responseRate_def or_default_def)
  have l1: "delayRule noOtherLiterals lowRateTiming (at_clock 0 9 0) (at_clock 0 16 0) Medium = (True, 8/10)"
    using q c by (simp add: delayRule_def Let_def h lowRateTiming_def defaultTiming_def
        storedRate_def list_ex_iff)
  have l2: "shouldDelayNotification noOtherLiterals lowRateTiming (at_clock 0 9 0) (at_clock 0 16 0) Medium
       = \<lparr>shouldDelay = True, reason = ''User historically unresponsive at this time'',
          delay_confidence = 8/10\<rparr>"
    using q by (simp add: shouldDelayNotification_def Let_def h lowRateTiming_def defaultTiming_def
        default_conflict_16 responseRate_def or_default_def)
  show ?thesis
    using z1 z2 l1 l2 by (simp add: zeroRateTiming_def lowRateTiming_def)
qed

subsection \<open>C6: the next optimal time\<close>

text \<open>
  What holds of \<open>findNextOptimalTime\<close>. The loop runs at most 6 rounds for high and 24
  for medium urgency, so the function always returns; the result is the first acceptable
  hourly step within the cap, or else the fallback; and for an input not before now a
  returned time is not before now.
\<close>

lemma probe_step:
  "probeHours lit ub t i (Suc left)
     = (if acceptable lit ub t i then Some (t + int i * msPerHour)
        else probeHours lit ub t (Suc i) left)"
proof -
  have e: "t + int i * 60 * 60 * 1000 = t + int i * msPerHour"
    by (simp add: msPerHour_def)
  show ?thesis
    unfolding probeHours.simps e acceptable_def timeClip_def Let_def by auto
qed

lemma probe_Some:
  "probeHours lit ub t i left = Some c \<Longrightarrow>
     \<exists>j. i \<le> j \<and> j < i + left \<and> acceptable lit ub t j
         \<and> (\<forall>k. i \<le> k \<and> k < j \<longrightarrow> \<not> acceptable lit ub t k)
         \<and> c = t + int j * msPerHour"
proof (induction left arbitrary: i)
  case 0
  then show ?case by simp
next
  case (Suc left)
  show ?case
  proof (cases "acceptable lit ub t i")
    case True
    then have "c = t + int i * msPerHour"
      using Suc.prems by (simp only: probe_step if_True option.inject)
    with True show ?thesis by (intro exI [of _ i]) auto
  next
    case False
    then have "probeHours lit ub t (Suc i) left = Some c"
      using Suc.prems by (simp only: probe_step if_False)
    from Suc.IH [OF this] obtain j where j:
      "Suc i \<le> j" "j < Suc i + left" "acceptable lit ub t j"
      "\<forall>k. Suc i \<le> k \<and> k < j \<longrightarrow> \<not> acceptable lit ub t k" "c = t + int j * msPerHour"
      by blast
    have "\<forall>k. i \<le> k \<and> k < j \<longrightarrow> \<not> acceptable lit ub t k"
    proof (intro allI impI)
      fix k assume "i \<le> k \<and> k < j"
      then show "\<not> acceptable lit ub t k"
        using False j(4) by (cases "k = i") auto
    qed
    with j show ?thesis by (intro exI [of _ j]) auto
  qed
qed

lemma probe_None:
  "probeHours lit ub t i left = None \<Longrightarrow> i \<le> j \<Longrightarrow> j < i + left \<Longrightarrow> \<not> acceptable lit ub t j"
proof (induction left arbitrary: i)
  case 0
  then show ?case by simp
next
  case (Suc left)
  have ni: "\<not> acceptable lit ub t i"
    using Suc.prems(1) by (auto simp only: probe_step split: if_splits)
  then have rest: "probeHours lit ub t (Suc i) left = None"
    using Suc.prems(1) by (simp only: probe_step if_False)
  show ?case
  proof (cases "j = i")
    case True
    then show ?thesis using ni by simp
  next
    case False
    then show ?thesis using Suc.IH [OF rest] Suc.prems by auto
  qed
qed

text \<open>The loop reads the profile through its quiet periods and response rates only.\<close>

lemma probe_cong:
  assumes "quietPeriods ub = quietPeriods ub'" "responseRates ub = responseRates ub'"
  shows "probeHours lit ub t i left = probeHours lit ub' t i left"
proof (induction left arbitrary: i)
  case 0
  then show ?case by simp
next
  case (Suc left)
  have "acceptable lit ub t i = acceptable lit ub' t i"
    using assms by (simp add: acceptable_def responseRate_def)
  then show ?case using Suc by (simp only: probe_step)
qed

lemma setHours_next_day_after: "t < setHours t h 0 + msPerDay"
proof -
  have "t mod msPerDay < msPerDay" by (simp add: msPerDay_def)
  moreover have "0 \<le> int h * msPerHour" by (simp add: msPerHour_def)
  ultimately show ?thesis by (simp add: setHours_def)
qed

lemma timeClip_Some: "timeClip ms = Some r \<Longrightarrow> r = ms"
  by (simp add: timeClip_def split: if_splits)

lemma fallback_not_before:
  assumes "now \<le> t" "fallbackTime ub now t = Some r"
  shows "now \<le> r"
proof -
  obtain h f where h: "nextActiveHour (todayPattern ub t) (getHours t) = Some h"
    and f: "timeClip (setHours t h 0) = Some f"
    using assms(2) by (auto simp: fallbackTime_def split: option.splits)
  have fe: "f = setHours t h 0" using f by (rule timeClip_Some)
  show ?thesis
  proof (cases "f < now + 60 * 60 * 1000")
    case True
    then have "timeClip (nextDay f) = Some r"
      using assms(2) h f by (simp add: fallbackTime_def)
    then have "r = setHours t h 0 + msPerDay"
      using fe by (auto dest: timeClip_Some simp: nextDay_def)
    then show ?thesis using setHours_next_day_after [of t h] assms(1) by simp
  next
    case False
    then have "r = f"
      using assms(2) h f by (simp add: fallbackTime_def)
    then show ?thesis using False by simp
  qed
qed

lemma next_time_not_before:
  assumes "now \<le> t" "findNextOptimalTime lit ub now t u = Some r"
  shows "now \<le> r"
proof (cases "probeHours lit ub t 1 (maxDelay u)")
  case None
  then show ?thesis using assms fallback_not_before by (simp add: findNextOptimalTime_def)
next
  case (Some c)
  from probe_Some [OF this] obtain j where "c = t + int j * msPerHour" by blast
  moreover have "r = c" using Some assms(2) by (simp add: findNextOptimalTime_def)
  ultimately show ?thesis using assms(1) by (simp add: msPerHour_def)
qed

lemma next_time_result:
  "(\<exists>i. 1 \<le> i \<and> i \<le> maxDelay u \<and> acceptable lit ub t i
         \<and> (\<forall>j. 1 \<le> j \<and> j < i \<longrightarrow> \<not> acceptable lit ub t j)
         \<and> findNextOptimalTime lit ub now t u = Some (t + int i * msPerHour))
   \<or> ((\<forall>i. 1 \<le> i \<and> i \<le> maxDelay u \<longrightarrow> \<not> acceptable lit ub t i)
         \<and> findNextOptimalTime lit ub now t u = fallbackTime ub now t)"
proof (cases "probeHours lit ub t 1 (maxDelay u)")
  case None
  then have "\<forall>i. 1 \<le> i \<and> i \<le> maxDelay u \<longrightarrow> \<not> acceptable lit ub t i"
    using probe_None [of lit ub t 1 "maxDelay u"] by auto
  then show ?thesis using None by (simp add: findNextOptimalTime_def)
next
  case (Some c)
  from probe_Some [OF this] obtain j where
    "1 \<le> j" "j < 1 + maxDelay u" "acceptable lit ub t j"
    "\<forall>k. 1 \<le> k \<and> k < j \<longrightarrow> \<not> acceptable lit ub t k" "c = t + int j * msPerHour"
    by blast
  then show ?thesis using Some
    by (intro disjI1 exI [of _ j]) (auto simp: findNextOptimalTime_def)
qed

text \<open>
  With no candidate hour for the weekday, the fallback is an Invalid Date. On a candidate
  list in ascending order the hour the code picks is the next active hour.
\<close>

lemma fallback_empty: "todayPattern ub t = [] \<Longrightarrow> fallbackTime ub now t = None"
  by (simp add: fallbackTime_def nextActiveHour_def)

lemma find_sorted_Min:
  assumes "sorted xs" "\<exists>x \<in> set xs. x > (h::nat)"
  shows "List.find (\<lambda>x. x > h) xs = Some (Min {x \<in> set xs. x > h})"
  using assms
proof (induction xs)
  case Nil
  then show ?case by simp
next
  case (Cons a xs)
  show ?case
  proof (cases "a > h")
    case True
    have "{x \<in> set (a # xs). x > h} = insert a {x \<in> set xs. x > h}" using True by auto
    moreover have "\<forall>y \<in> {x \<in> set xs. x > h}. a \<le> y" using Cons.prems(1) by auto
    ultimately have "Min {x \<in> set (a # xs). x > h} = a"
      by (intro Min_eqI) auto
    then show ?thesis using True by simp
  next
    case False
    then have "{x \<in> set (a # xs). x > h} = {x \<in> set xs. x > h}" by auto
    moreover have "\<exists>x \<in> set xs. x > h" using Cons.prems(2) False by auto
    moreover have "sorted xs" using Cons.prems(1) by simp
    ultimately show ?thesis using Cons.IH False by simp
  qed
qed

lemma hd_sorted_Min:
  assumes "sorted xs" "xs \<noteq> []"
  shows "hd xs = Min (set (xs::nat list))"
proof (cases xs)
  case Nil
  then show ?thesis using assms by simp
next
  case (Cons a ys)
  then have "\<forall>y \<in> set xs. a \<le> y" using assms(1) by auto
  then have "Min (set xs) = a" using Cons by (intro Min_eqI) auto
  then show ?thesis using Cons by simp
qed

lemma nextActiveHour_sorted:
  assumes "sorted pattern"
  shows "nextActiveHour pattern h = nextActiveSpec pattern h"
proof (cases "pattern = []")
  case True
  then show ?thesis by (simp add: nextActiveHour_def nextActiveSpec_def)
next
  case False
  show ?thesis
  proof (cases "\<exists>x \<in> set pattern. x > h")
    case True
    have "Min {x \<in> set pattern. x > h} \<in> {x \<in> set pattern. x > h}"
      using True by (intro Min_in) auto
    then have "Min {x \<in> set pattern. x > h} \<noteq> 0" by auto
    then show ?thesis
      using True False find_sorted_Min [OF assms True]
      by (simp add: nextActiveHour_def nextActiveSpec_def)
  next
    case False2: False
    then have "List.find (\<lambda>x. x > h) pattern = None"
      by (auto simp: find_None_iff)
    then show ?thesis
      using False False2 hd_sorted_Min [OF assms False]
      by (cases pattern) (auto simp: nextActiveHour_def nextActiveSpec_def)
  qed
qed

text \<open>
  The default profile, asked on Thursday 20:00 for a time after Thursday 21:00: Friday
  07:00 for high, Friday 08:00 for medium urgency. On a Saturday the Saturday pattern
  decides: Sunday 09:00. At the end of the range of \<open>Date\<close> no valid time is left.
\<close>

lemma fallback_example:
  "findNextOptimalTime noOtherLiterals (defaultBehavior 0) (at_clock 0 20 0) (at_clock 0 21 0) High
     = Some (at_clock 1 7 0)"
  by code_simp

lemma probe_example:
  "findNextOptimalTime noOtherLiterals (defaultBehavior 0) (at_clock 0 20 0) (at_clock 0 21 0) Medium
     = Some (at_clock 0 21 0 + 11 * msPerHour)"
  by code_simp

lemma saturday_example:
  "findNextOptimalTime noOtherLiterals (defaultBehavior 0) (at_clock 2 20 0) (at_clock 2 21 0) High
     = Some (at_clock 3 9 0)"
  by code_simp

lemma range_example:
  "findNextOptimalTime noOtherLiterals (defaultBehavior 0) 0 maxTimeValue High = None"
  by code_simp

lemma usedOnce_pattern: "todayPattern usedOnce (at_clock 0 21 0) = [12, 15, 19, 7, 9]"
proof -
  have h: "getHours (at_clock 0 9 0) = 9" by (simp add: getHours_at_clock)
  have d: "getDayName (getDay (at_clock 0 9 0)) = ''thursday''"
          "getDayName (getDay (at_clock 0 21 0)) = ''thursday''"
    by (simp_all add: thursday_0)
  have b: "js_sort [7, 12, 15, 19, 9] = [12, 15, 19, 7, 9]"
    by (simp add: js_sort_def toString_small)
  show ?thesis
    by (simp add: usedOnce_def todayPattern_def recordAppUsage_def Let_def h d defaultBehavior_def b)
qed

lemma usedOnce_same_tables:
  "quietPeriods usedOnce = quietPeriods (defaultBehavior 0)"
  "responseRates usedOnce = responseRates (defaultBehavior 0)"
  by (simp_all add: usedOnce_def recordAppUsage_def Let_def)

lemma evening_probe_none:
  "probeHours noOtherLiterals (defaultBehavior 0) (at_clock 0 21 0) 1 (maxDelay High) = None"
  by code_simp

lemma usedOnce_fallback:
  "fallbackTime usedOnce (at_clock 0 20 0) (at_clock 0 21 0) = Some (at_clock 1 12 0)"
proof -
  have n: "nextActiveHour [12, 15, 19, 7, 9] 21 = Some 12"
    by (simp add: nextActiveHour_def)
  have s: "setHours (at_clock 0 21 0) 12 0 = at_clock 0 12 0"
    by (simp add: setHours_def at_clock_def msPerDay_def msPerHour_def)
  have c: "timeClip (at_clock 0 12 0) = Some (at_clock 0 12 0)"
          "timeClip (nextDay (at_clock 0 12 0)) = Some (at_clock 1 12 0)"
    by (simp_all add: timeClip_def nextDay_def at_clock_def msPerDay_def msPerHour_def maxTimeValue_def)
  have l: "at_clock 0 12 0 < at_clock 0 20 0 + 3600000"
    by (simp add: at_clock_def msPerDay_def msPerHour_def)
  have g: "getHours (at_clock 0 21 0) = 21" by (simp add: getHours_at_clock)
  show ?thesis
    using l by (simp add: fallbackTime_def usedOnce_pattern g n s c)
qed

text \<open>
  Claim C6 fails in its fallback. After app usage was recorded on Thursday 09:00 the
  Thursday pattern is 12, 15, 19, 7, 9, in string order. Asked on Thursday 20:00 for a
  time after Thursday 21:00 with high urgency, the code finds no step within the cap and
  no candidate above 21 and takes the head of the list, 12: Friday 12:00, although the
  next active hour is 7 and Friday 07:00 is more than an hour away; by Friday's own
  pattern 8, 12, 19, 21 the next active hour is 8, and Friday 08:00 is before Friday 12:00
  as well. With no candidate at all the code returns an Invalid Date.
\<close>

theorem fallback_misses_active_hours:
  "todayPattern usedOnce (at_clock 0 21 0) = [12, 15, 19, 7, 9]
   \<and> nextActiveSpec [12, 15, 19, 7, 9] 21 = Some 7
   \<and> nextActiveHour [12, 15, 19, 7, 9] 21 = Some 12
   \<and> at_clock 0 20 0 + msPerHour \<le> at_clock 1 7 0
   \<and> at_clock 1 7 0 < at_clock 1 12 0
   \<and> todayPattern usedOnce (at_clock 1 0 0) = [8, 12, 19, 21]
   \<and> nextActiveSpec [8, 12, 19, 21] 0 = Some 8
   \<and> at_clock 1 8 0 < at_clock 1 12 0
   \<and> findNextOptimalTime noOtherLiterals usedOnce (at_clock 0 20 0) (at_clock 0 21 0) High
       = Some (at_clock 1 12 0)
   \<and> findNextOptimalTime noOtherLiterals noCandidates (at_clock 0 20 0) (at_clock 0 21 0) High
       = None"
proof -
  have p: "probeHours noOtherLiterals usedOnce (at_clock 0 21 0) 1 (maxDelay High) = None"
    using probe_cong [OF usedOnce_same_tables] evening_probe_none by simp
  have f: "findNextOptimalTime noOtherLiterals usedOnce (at_clock 0 20 0) (at_clock 0 21 0) High
             = Some (at_clock 1 12 0)"
    unfolding findNextOptimalTime_def p by (simp add: usedOnce_fallback)
  have sp: "nextActiveSpec [12, 15, 19, 7, 9] 21 = Some 7"
    by (simp add: nextActiveSpec_def)
  have e: "findNextOptimalTime noOtherLiterals noCandidates (at_clock 0 20 0) (at_clock 0 21 0) High = None"
    by code_simp
  have n: "nextActiveHour [12, 15, 19, 7, 9] 21 = Some 12"
    by (simp add: nextActiveHour_def)
  have o: "at_clock 0 20 0 + msPerHour \<le> at_clock 1 7 0" "at_clock 1 7 0 < at_clock 1 12 0"
          "at_clock 1 8 0 < at_clock 1 12 0"
    by (simp_all add: at_clock_def msPerDay_def msPerHour_def)
  have d: "getDayName (getDay (at_clock 0 9 0)) = ''thursday''"
    by (simp add: thursday_0)
  have r: "getDayName (getDay (at_clock 1 0 0)) = ''friday''"
    by (simp add: getDay_def getDayName_def at_clock_def msPerDay_def msPerHour_def)
  have fr: "todayPattern usedOnce (at_clock 1 0 0) = [8, 12, 19, 21]"
    by (simp add: usedOnce_def todayPattern_def recordAppUsage_def Let_def d r defaultBehavior_def)
  have "{x \<in> set [8, 12, 19, 21]. x > (0::nat)} = {8, 12, 19, 21}" by auto
  then have sf: "nextActiveSpec [8, 12, 19, 21] 0 = Some 8"
    by (simp add: nextActiveSpec_def)
  show ?thesis
    using f sp e n o fr sf usedOnce_pattern by simp
qed

end
